theory Spec2Isabelle
  imports Complex_Main "HOL-Library.AList"
begin

section \<open>Numbers\<close>

text \<open>
  A JavaScript number is a binary64 value: a finite value, one of the two infinities, or
  NaN. A finite value is the real number it denotes; the negative zero is not told from
  zero. Every arithmetic operation rounds its exact result to the nearest binary64 value,
  ties to even, as IEEE 754 has it (\<open>fl64\<close>); a result beyond the range is an infinity,
  a result below it a subnormal value or zero. A zero divisor is the positive zero: every
  divisor of the engines is a sum that starts at \<open>0\<close>, which is never the negative zero.
\<close>

datatype jsnum = Fin real | PInf | NInf | NaN

definition signed_inf :: "bool \<Rightarrow> jsnum" where
  "signed_inf positive = (if positive then PInf else NInf)"

function exponent :: "real \<Rightarrow> int" where
  \<comment> \<open>for \<open>x > 0\<close>, the \<open>e\<close> with \<open>2^e <= x < 2^(e+1)\<close>, by halving and doubling\<close>
  "exponent x =
     (if x \<le> 0 then 0
      else if 2 \<le> x then exponent (x / 2) + 1
      else if x < 1 then exponent (x * 2) - 1
      else 0)"
  by pat_completeness auto
termination
proof (relation "measure (\<lambda>x. nat \<bar>\<lfloor>log 2 x\<rfloor>\<bar>)")
  show "wf (measure (\<lambda>x. nat \<bar>\<lfloor>log 2 x\<rfloor>\<bar>))" by simp
next
  fix x :: real
  assume x: "\<not> x \<le> 0" "2 \<le> x"
  then have "1 \<le> log 2 x"
    by (simp add: le_log_iff)
  then have "1 \<le> \<lfloor>log 2 x\<rfloor>" by linarith
  moreover have "log 2 (x / 2) = log 2 x - 1"
    using x by (simp add: log_divide)
  then have "\<lfloor>log 2 (x / 2)\<rfloor> = \<lfloor>log 2 x\<rfloor> - 1" by simp
  ultimately show "(x / 2, x) \<in> measure (\<lambda>x. nat \<bar>\<lfloor>log 2 x\<rfloor>\<bar>)"
    by simp
next
  fix x :: real
  assume x: "\<not> x \<le> 0" "\<not> 2 \<le> x" "x < 1"
  then have "log 2 x < 0"
    by simp
  then have "\<lfloor>log 2 x\<rfloor> \<le> - 1" by linarith
  moreover have "log 2 (x * 2) = log 2 x + 1"
    using x by (simp add: log_mult)
  then have "\<lfloor>log 2 (x * 2)\<rfloor> = \<lfloor>log 2 x\<rfloor> + 1" by simp
  ultimately show "(x * 2, x) \<in> measure (\<lambda>x. nat \<bar>\<lfloor>log 2 x\<rfloor>\<bar>)"
    by simp
qed

declare exponent.simps [simp del]

definition roundEven :: "real \<Rightarrow> int" where
  \<comment> \<open>the nearest integer, the even one of two nearest\<close>
  "roundEven m =
     (let f = \<lfloor>m\<rfloor>; d = m - of_int f
      in if d < 1 / 2 then f else if 1 / 2 < d then f + 1 else if even f then f else f + 1)"

definition fl64 :: "real \<Rightarrow> jsnum" where
  \<comment> \<open>53 significant bits, exponents from \<open>-1022\<close> to \<open>1023\<close>\<close>
  "fl64 x =
     (if x = 0 then Fin 0
      else
        let e0 = exponent \<bar>x\<bar>
        in if 1024 \<le> e0 then signed_inf (0 < x)
           else
             let e = max e0 (- 1022);
                 r = roundEven (\<bar>x\<bar> / 2 powi (e - 52))
             in if e = 1023 \<and> r = 2 ^ 53 then signed_inf (0 < x)
                else Fin (sgn x * of_int r * 2 powi (e - 52)))"

definition num :: "real \<Rightarrow> jsnum" where
  \<comment> \<open>the value of a decimal literal of the source; an integer literal, \<open>0.5\<close> and
      \<open>1.5\<close> are binary64 values themselves and written with \<open>Fin\<close>\<close>
  "num d = fl64 d"

fun jneg :: "jsnum \<Rightarrow> jsnum" where
  "jneg (Fin x) = Fin (- x)"
| "jneg PInf = NInf"
| "jneg NInf = PInf"
| "jneg NaN = NaN"

fun jadd :: "jsnum \<Rightarrow> jsnum \<Rightarrow> jsnum" where
  "jadd (Fin x) (Fin y) = fl64 (x + y)"
| "jadd (Fin x) PInf = PInf"
| "jadd (Fin x) NInf = NInf"
| "jadd PInf (Fin y) = PInf"
| "jadd PInf PInf = PInf"
| "jadd PInf NInf = NaN"
| "jadd NInf (Fin y) = NInf"
| "jadd NInf PInf = NaN"
| "jadd NInf NInf = NInf"
| "jadd NaN b = NaN"
| "jadd a NaN = NaN"

definition jsub :: "jsnum \<Rightarrow> jsnum \<Rightarrow> jsnum" where
  "jsub a b = jadd a (jneg b)"

fun jmul :: "jsnum \<Rightarrow> jsnum \<Rightarrow> jsnum" where
  "jmul (Fin x) (Fin y) = fl64 (x * y)"
| "jmul (Fin x) PInf = (if x = 0 then NaN else signed_inf (0 < x))"
| "jmul (Fin x) NInf = (if x = 0 then NaN else signed_inf (x < 0))"
| "jmul PInf (Fin y) = (if y = 0 then NaN else signed_inf (0 < y))"
| "jmul NInf (Fin y) = (if y = 0 then NaN else signed_inf (y < 0))"
| "jmul PInf PInf = PInf"
| "jmul PInf NInf = NInf"
| "jmul NInf PInf = NInf"
| "jmul NInf NInf = PInf"
| "jmul NaN b = NaN"
| "jmul a NaN = NaN"

fun jdiv :: "jsnum \<Rightarrow> jsnum \<Rightarrow> jsnum" where
  "jdiv (Fin x) (Fin y) =
     (if y \<noteq> 0 then fl64 (x / y)
      else if 0 < x then PInf else if x < 0 then NInf else NaN)"
| "jdiv (Fin x) PInf = Fin 0"
| "jdiv (Fin x) NInf = Fin 0"
| "jdiv PInf (Fin y) = signed_inf (0 \<le> y)"
| "jdiv NInf (Fin y) = signed_inf (y < 0)"
| "jdiv PInf PInf = NaN"
| "jdiv PInf NInf = NaN"
| "jdiv NInf PInf = NaN"
| "jdiv NInf NInf = NaN"
| "jdiv NaN b = NaN"
| "jdiv a NaN = NaN"

text \<open>The comparison operators \<open><\<close> and \<open><=\<close>: false as soon as one side is NaN.\<close>

fun jlt :: "jsnum \<Rightarrow> jsnum \<Rightarrow> bool" where
  "jlt (Fin x) (Fin y) = (x < y)"
| "jlt (Fin x) PInf = True"
| "jlt (Fin x) NInf = False"
| "jlt PInf b = False"
| "jlt NInf (Fin y) = True"
| "jlt NInf PInf = True"
| "jlt NInf NInf = False"
| "jlt NaN b = False"
| "jlt a NaN = False"

fun jle :: "jsnum \<Rightarrow> jsnum \<Rightarrow> bool" where
  "jle (Fin x) (Fin y) = (x \<le> y)"
| "jle (Fin x) PInf = True"
| "jle (Fin x) NInf = False"
| "jle PInf (Fin y) = False"
| "jle PInf PInf = True"
| "jle PInf NInf = False"
| "jle NInf (Fin y) = True"
| "jle NInf PInf = True"
| "jle NInf NInf = True"
| "jle NaN b = False"
| "jle a NaN = False"

definition jgt :: "jsnum \<Rightarrow> jsnum \<Rightarrow> bool" where
  "jgt a b = jlt b a"

definition jge :: "jsnum \<Rightarrow> jsnum \<Rightarrow> bool" where
  "jge a b = jle b a"

text \<open>
  \<open>Math.min\<close>, \<open>Math.max\<close>, \<open>Math.abs\<close> and \<open>Math.round\<close> (halves go up) are exact: their
  result on binary64 values is a binary64 value.
\<close>

definition jmin :: "jsnum \<Rightarrow> jsnum \<Rightarrow> jsnum" where
  "jmin a b = (if a = NaN \<or> b = NaN then NaN else if jle a b then a else b)"

definition jmax :: "jsnum \<Rightarrow> jsnum \<Rightarrow> jsnum" where
  "jmax a b = (if a = NaN \<or> b = NaN then NaN else if jle a b then b else a)"

fun jabs :: "jsnum \<Rightarrow> jsnum" where
  "jabs (Fin x) = Fin \<bar>x\<bar>"
| "jabs PInf = PInf"
| "jabs NInf = PInf"
| "jabs NaN = NaN"

fun jround :: "jsnum \<Rightarrow> jsnum" where
  "jround (Fin x) = Fin (of_int \<lfloor>x + 1 / 2\<rfloor>)"
| "jround PInf = PInf"
| "jround NInf = NInf"
| "jround NaN = NaN"

text \<open>A number is falsy (in \<open>x || d\<close>, \<open>x && y\<close>) when it is zero or NaN.\<close>

definition truthy :: "jsnum \<Rightarrow> bool" where
  "truthy x = (x \<noteq> Fin 0 \<and> x \<noteq> NaN)"

definition jsum :: "jsnum list \<Rightarrow> jsnum" where
  \<comment> \<open>\<open>xs.reduce((sum, x) => sum + x, 0)\<close>\<close>
  "jsum xs = foldl jadd (Fin 0) xs"

fun is_fin :: "jsnum \<Rightarrow> bool" where
  "is_fin (Fin x) = True"
| "is_fin PInf = False"
| "is_fin NInf = False"
| "is_fin NaN = False"

section \<open>Text\<close>

text \<open>
  Strings are lists of HOL characters, read as the code units below 256. On that range
  \<open>toLowerCase\<close> moves \<open>A\<close>-\<open>Z\<close> and the Latin-1 capitals (\<open>0xC0\<close>-\<open>0xDE\<close> without
  \<open>0xD7\<close>) up by 32, and the white space of \<open>trim\<close> and of the regular expression
  class \<open>\s\<close> is tab, line feed, vertical tab, form feed, carriage return, space and
  the no-break space.
\<close>

definition lower_char :: "char \<Rightarrow> char" where
  "lower_char c =
     (let n = (of_char c :: nat)
      in if (65 \<le> n \<and> n \<le> 90) \<or> (192 \<le> n \<and> n \<le> 222 \<and> n \<noteq> 215)
         then char_of (n + 32) else c)"

definition toLowerCase :: "string \<Rightarrow> string" where
  "toLowerCase s = map lower_char s"

definition is_space :: "char \<Rightarrow> bool" where
  "is_space c = ((of_char c :: nat) \<in> {9, 10, 11, 12, 13, 32, 160})"

definition nonblank :: "string \<Rightarrow> bool" where
  \<comment> \<open>\<open>s && s.trim().length > 0\<close>\<close>
  "nonblank s = (\<exists>c \<in> set s. \<not> is_space c)"

fun starts_with :: "string \<Rightarrow> string \<Rightarrow> bool" where
  "starts_with s [] = True"
| "starts_with [] (p # ps) = False"
| "starts_with (c # cs) (p # ps) = (c = p \<and> starts_with cs ps)"

fun str_includes :: "string \<Rightarrow> string \<Rightarrow> bool" where
  \<comment> \<open>\<open>s.includes(sub)\<close>\<close>
  "str_includes [] sub = (sub = [])"
| "str_includes (c # cs) sub = (starts_with (c # cs) sub \<or> str_includes cs sub)"

section \<open>Data model\<close>

text \<open>
  The interfaces of \<open>types.ts\<close>. Field names that several interfaces share carry a
  prefix here. A severity is an integer level, an amount a number, an optional coordinate
  an optional number. Of the fields that only hold display text (descriptions copied from
  the claim, evidence excerpts, highlighted keywords, narratives) the records keep the
  explanation, as the tag of the template that the source fills in.
\<close>

record ClaimItem =
  claim_id :: string
  patient_name :: string
  date :: string
  time :: string
  department :: string
  cpt_code :: string
  cpt_description :: string
  billed_amount_inr :: jsnum
  recorded_clinical_notes :: string
  location_lat :: "jsnum option"
  location_lng :: "jsnum option"

record CPTCode =
  severity :: int
  avg_cost_inr :: jsnum
  category :: string

record NCCIBundle =
  primary_code :: string
  bundled_codes :: "string list"
  correct_single_code :: string

record CPTDatabase =
  codes :: "string \<rightharpoonup> CPTCode"
  ncci_bundles :: "NCCIBundle list"
  severity_keywords :: "string \<rightharpoonup> string list"

datatype risk_level = LOW | MEDIUM | HIGH | CRITICAL

datatype mismatch_text =
  NoDocumentation | CriticalMismatch | SignificantMismatch | MinorDiscrepancy
  | MissingDocumentation

record SeverityMismatch =
  sm_claim_id :: string
  sm_cpt_code :: string
  billed_severity :: int
  note_severity :: int
  severity_gap :: int
  sm_billed_amount :: jsnum
  sm_explanation :: mismatch_text

record CrossModalResult =
  mismatches :: "SeverityMismatch list"
  cm_total_claims :: nat
  cm_flagged_count :: nat
  cm_risk_level :: risk_level

record TimelineEvent =
  ev_claim_id :: string
  start_time :: int
  end_time :: int
  ev_department :: string
  ev_location_lat :: "jsnum option"
  ev_location_lng :: "jsnum option"

datatype overlap_type = OVERLAP | TELEPORTATION

datatype overlap_text =
  ImpossibleTravel | TimeOverlap | DifferentLocationOverlap | SameLocationOverlap

record TimelineOverlap =
  event_a :: TimelineEvent
  event_b :: TimelineEvent
  overlap_minutes :: jsnum
  ov_explanation :: overlap_text
  ov_type :: overlap_type
  required_speed_kmh :: "jsnum option"

record TimelineResult =
  events :: "TimelineEvent list"
  overlaps :: "TimelineOverlap list"
  tl_flagged_count :: nat
  tl_risk_level :: risk_level

datatype ghost_text = PhantomBilling | InsufficientEvidence | UnrelatedArea

record GhostService =
  gs_claim_id :: string
  gs_cpt_code :: string
  gs_billed_amount :: jsnum
  similarity_score :: jsnum
  gs_explanation :: ghost_text

record UnbundlingAlert =
  involved_claims :: "string list"
  involved_codes :: "string list"
  total_billed :: jsnum
  correct_code :: string
  correct_cost :: jsnum
  potential_savings :: jsnum

record GhostUnbundleResult =
  ghost_services :: "GhostService list"
  unbundling_alerts :: "UnbundlingAlert list"
  total_potential_savings :: jsnum
  gu_flagged_count :: nat
  gu_risk_level :: risk_level

datatype direction = RISK | SAFE

record RiskFactor =
  factor_name :: string
  contribution :: jsnum
  direction :: direction

datatype recommendation = APPROVE | REVIEW | REJECT | ESCALATE

record FinancialSummary =
  billed_amount :: jsnum
  expected_amount :: jsnum
  fs_potential_savings :: jsnum

record XAIResult =
  risk_score :: jsnum
  xai_risk_level :: risk_level
  factors :: "RiskFactor list"
  recommendation :: recommendation
  financial_summary :: FinancialSummary

section \<open>Severity cross-checker (\<open>cross-modal-auditor.ts\<close>)\<close>

text \<open>
  A lookup \<open>table[key]\<close> in an object literal or in the reference database is a lookup
  among the table's own keys (a finite map or an association list in the source's key
  order); the keys that every JavaScript object inherits are not modelled. Objects that
  the source fills key by key and then lists with \<open>Object.entries\<close> are association
  lists in insertion order.
\<close>

record NoteAnalysis =
  level :: int
  found_keywords :: "string list"

definition keywordsAt :: "(string \<rightharpoonup> string list) \<Rightarrow> string \<Rightarrow> string list" where
  \<comment> \<open>\<open>severityKeywords[key] || []\<close>\<close>
  "keywordsAt severityKeywords key =
     (case severityKeywords key of None \<Rightarrow> [] | Some ks \<Rightarrow> ks)"

definition scanKeyword ::
  "string \<Rightarrow> int \<Rightarrow> string list \<times> int \<Rightarrow> string \<Rightarrow> string list \<times> int" where
  \<comment> \<open>the body of the inner loop, on the pair \<open>(foundKeywords, maxLevel)\<close>\<close>
  "scanKeyword lowerNotes lvl st kw =
     (if str_includes lowerNotes (toLowerCase kw)
      then (fst st @ [kw], if lvl > snd st then lvl else snd st)
      else st)"

definition scanLevels :: "string \<Rightarrow> (string \<rightharpoonup> string list) \<Rightarrow> string list \<times> int" where
  \<comment> \<open>\<open>for (let level = 5; level >= 1; level--)\<close>, keyed by \<open>level.toString()\<close>\<close>
  "scanLevels lowerNotes severityKeywords =
     foldl (\<lambda>st lk. foldl (scanKeyword lowerNotes (fst lk)) st (keywordsAt severityKeywords (snd lk)))
       ([], 1)
       [(5, ''5''), (4, ''4''), (3, ''3''), (2, ''2''), (1, ''1'')]"

definition countAmong :: "string list \<Rightarrow> string list \<Rightarrow> nat" where
  \<comment> \<open>how many found keywords equal, ignoring case, a keyword of the given lists\<close>
  "countAmong found kws =
     length (filter (\<lambda>k. \<exists>kw \<in> set kws. toLowerCase k = toLowerCase kw) found)"

definition extractNoteSeverity :: "string \<Rightarrow> (string \<rightharpoonup> string list) \<Rightarrow> NoteAnalysis" where
  "extractNoteSeverity notes severityKeywords =
     (let lowerNotes = toLowerCase notes;
          st = scanLevels lowerNotes severityKeywords;
          foundKeywords = fst st;
          maxLevel = snd st
      in if str_includes lowerNotes ''no record found''
            \<or> str_includes lowerNotes ''no clinical notes available''
         then \<lparr>level = 0, found_keywords = [''NO RECORD FOUND'']\<rparr>
         else
           let lowCount = countAmong foundKeywords
                            (keywordsAt severityKeywords ''1'' @ keywordsAt severityKeywords ''2'');
               highCount = countAmong foundKeywords
                            (keywordsAt severityKeywords ''4'' @ keywordsAt severityKeywords ''5'')
           in \<lparr>level = (if lowCount > highCount \<and> maxLevel > 2 then 2 else maxLevel),
               found_keywords = foundKeywords\<rparr>)"

definition is_separator :: "char \<Rightarrow> bool" where
  \<comment> \<open>the class of the regular expression in \<open>split\<close>: white space, comma, hyphen,
      parentheses and slash (its em dash is no code unit below 256)\<close>
  "is_separator c = (is_space c \<or> c \<in> set '',-()/'')"

fun tokens :: "string \<Rightarrow> string \<Rightarrow> string list" where
  \<comment> \<open>the maximal runs of characters that are not separators\<close>
  "tokens cur [] = (if cur = [] then [] else [cur])"
| "tokens cur (c # cs) =
     (if is_separator c then (if cur = [] then tokens [] cs else cur # tokens [] cs)
      else tokens (cur @ [c]) cs)"

definition descTerms :: "string \<Rightarrow> string list" where
  \<comment> \<open>\<open>lowerDesc.split(separators).filter(t => t.length >= 3)\<close>: the empty strings that
      \<open>split\<close> yields at the ends do not pass the filter\<close>
  "descTerms lowerDesc = filter (\<lambda>t. 3 \<le> length t) (tokens [] lowerDesc)"

definition genericTerms :: "string list" where
  "genericTerms =
     [''the'', ''and'', ''with'', ''level'', ''visit'', ''established'', ''patient'', ''low'',
      ''high'']"

definition evidencePatterns :: "(string \<times> string list) list" where
  "evidencePatterns =
     [(''99285'', [''emergency'', ''life threatening'', ''critical'', ''unstable'', ''code blue'',
                  ''resuscitation'']),
      (''99284'', [''emergency'', ''high severity'', ''urgent'', ''acute'']),
      (''99283'', [''emergency'', ''moderate'']),
      (''73600'', [''x-ray'', ''xray'', ''x ray'', ''ankle'', ''radiograph'']),
      (''70553'', [''mri'', ''brain'', ''magnetic resonance'', ''contrast'', ''neurological'']),
      (''99070'', [''supplies'', ''brace'', ''material'', ''medication'', ''med'', ''ankle brace'',
                  ''tab.'', ''tablet'']),
      (''99213'', [''office visit'', ''follow-up'', ''follow up'', ''outpatient'', ''review'']),
      (''99214'', [''office visit'', ''moderate complexity'']),
      (''49320'', [''laparoscop'', ''exploratory'', ''scope'']),
      (''44950'', [''appendectomy'', ''appendix'']),
      (''44970'', [''laparoscopic appendectomy'']),
      (''12001'', [''suture'', ''wound'', ''closure''])]"

definition checkServiceEvidence :: "string \<Rightarrow> string \<Rightarrow> string \<Rightarrow> bool" where
  "checkServiceEvidence cptCode cptDescription notes =
     (let lowerNotes = toLowerCase notes;
          lowerDesc = toLowerCase cptDescription;
          matchCount = length (filter (\<lambda>t. t \<notin> set genericTerms \<and> str_includes lowerNotes t)
                                 (descTerms lowerDesc));
          patterns = (case map_of evidencePatterns cptCode of None \<Rightarrow> [] | Some ps \<Rightarrow> ps);
          patternMatches = length (filter (\<lambda>p. str_includes lowerNotes p) patterns)
      in 2 \<le> matchCount \<or> 1 \<le> patternMatches)"

definition BODY_AREA_KEYWORDS :: "(string \<times> string list) list" where
  "BODY_AREA_KEYWORDS =
     [(''ankle'', [''ankle'', ''73600'', ''73610'', ''73620'']),
      (''brain'', [''brain'', ''cerebral'', ''cranial'', ''70553'', ''70551'', ''70552'']),
      (''abdomen'', [''abdomen'', ''abdominal'', ''appendix'', ''laparoscop'', ''49320'', ''44950'',
                    ''44970'']),
      (''chest'', [''chest'', ''thorax'', ''pulmonary'', ''cardiac'', ''heart'']),
      (''spine'', [''spine'', ''spinal'', ''lumbar'', ''cervical'', ''thoracic'']),
      (''knee'', [''knee'', ''patellar'', ''73721'', ''73560'']),
      (''shoulder'', [''shoulder'', ''rotator'', ''acromial'']),
      (''hip'', [''hip'', ''femoral'', ''acetabular'']),
      (''wrist'', [''wrist'', ''carpal'', ''73100''])]"

record ClinicalPicture =
  dominantAreas :: "string list"
  maxSupportedSeverity :: int

definition countOf :: "(string \<times> nat) list \<Rightarrow> string \<Rightarrow> nat" where
  \<comment> \<open>\<open>areaCounts[area] || 0\<close>\<close>
  "countOf areaCounts area = (case map_of areaCounts area of None \<Rightarrow> 0 | Some n \<Rightarrow> n)"

definition severityOr1 :: "CPTCode option \<Rightarrow> int" where
  \<comment> \<open>\<open>cptInfo?.severity || 1\<close>\<close>
  "severityOr1 cptInfo =
     (case cptInfo of None \<Rightarrow> 1 | Some info \<Rightarrow> if severity info = 0 then 1 else severity info)"

definition noteArea ::
  "string \<Rightarrow> string \<Rightarrow> int \<Rightarrow> (string \<times> nat) list \<times> (string \<times> int) list \<Rightarrow> string \<times> string list
   \<Rightarrow> (string \<times> nat) list \<times> (string \<times> int) list" where
  \<comment> \<open>one area of the table for one claim, on the pair \<open>(areaCounts, areaSeverities)\<close>: the
      first keyword that matches counts the area once\<close>
  "noteArea desc code sev st entry =
     (if \<exists>kw \<in> set (snd entry). str_includes desc kw \<or> code = kw
      then (AList.update (fst entry) (countOf (fst st) (fst entry) + 1) (fst st),
            AList.update (fst entry)
              (max (case map_of (snd st) (fst entry) of None \<Rightarrow> 0
                    | Some v \<Rightarrow> v) sev) (snd st))
      else st)"

definition noteClaim ::
  "CPTDatabase \<Rightarrow> (string \<times> nat) list \<times> (string \<times> int) list \<Rightarrow> ClaimItem
   \<Rightarrow> (string \<times> nat) list \<times> (string \<times> int) list" where
  "noteClaim cptDb st c =
     (let desc = toLowerCase (cpt_description c);
          cptInfo = codes cptDb (cpt_code c)
      in if (case cptInfo of None \<Rightarrow> False | Some info \<Rightarrow> category info = ''E&M'') then st
         else foldl (noteArea desc (cpt_code c) (severityOr1 cptInfo)) st BODY_AREA_KEYWORDS)"

definition sortByCountDesc :: "(string \<times> nat) list \<Rightarrow> (string \<times> nat) list" where
  \<comment> \<open>\<open>entries.sort((a, b) => b[1] - a[1])\<close>, a stable sort\<close>
  "sortByCountDesc entries = sort_key (\<lambda>e. - int (snd e)) entries"

definition fallbackSeverity :: "ClaimItem list \<Rightarrow> CPTDatabase \<Rightarrow> int" where
  "fallbackSeverity claims cptDb =
     foldl (\<lambda>m c. case codes cptDb (cpt_code c) of
                    None \<Rightarrow> m
                  | Some info \<Rightarrow>
                      if category info \<noteq> ''E&M'' \<and> category info \<noteq> ''Supplies''
                      then max m (severity info) else m)
           1 claims"

definition inferClinicalPicture :: "ClaimItem list \<Rightarrow> CPTDatabase \<Rightarrow> ClinicalPicture" where
  "inferClinicalPicture claims cptDb =
     (let st = foldl (noteClaim cptDb) ([], []) claims;
          areas = map fst (sortByCountDesc (fst st))
      in \<lparr>dominantAreas = areas,
          maxSupportedSeverity =
            (case areas of
               [] \<Rightarrow> fallbackSeverity claims cptDb
             | dominantArea # _ \<Rightarrow>
                 (case map_of (snd st) dominantArea of
                    None \<Rightarrow> fallbackSeverity claims cptDb
                  | Some v \<Rightarrow> v))\<rparr>)"

definition generateExplanation :: "int \<Rightarrow> int \<Rightarrow> mismatch_text" where
  "generateExplanation billedSeverity noteSeverity =
     (let gap = billedSeverity - noteSeverity
      in if noteSeverity = 0 then NoDocumentation
         else if gap \<ge> 3 then CriticalMismatch
         else if gap \<ge> 2 then SignificantMismatch
         else MinorDiscrepancy)"

definition shouldFlag :: "bool \<Rightarrow> int \<Rightarrow> int \<Rightarrow> bool" where
  \<comment> \<open>\<open>(!hasEvidence && billedSeverity >= 2) || (gap >= 3) || (gap >= 2 && !hasEvidence)\<close>\<close>
  "shouldFlag hasEvidence billedSeverity gap =
     ((\<not> hasEvidence \<and> billedSeverity \<ge> 2) \<or> gap \<ge> 3 \<or> (gap \<ge> 2 \<and> \<not> hasEvidence))"

definition auditClaim :: "ClinicalPicture \<Rightarrow> CPTDatabase \<Rightarrow> ClaimItem \<Rightarrow> SeverityMismatch list" where
  \<comment> \<open>the body of the loop over the claims: the mismatches it pushes\<close>
  "auditClaim clinicalPicture cptDb claim =
     (case codes cptDb (cpt_code claim) of
        None \<Rightarrow> []
      | Some cptInfo \<Rightarrow>
          let billedSeverity = severity cptInfo
          in if nonblank (recorded_clinical_notes claim) then
               let noteAnalysis = extractNoteSeverity (recorded_clinical_notes claim)
                                    (severity_keywords cptDb);
                   hasEvidence = checkServiceEvidence (cpt_code claim) (cpt_description claim)
                                    (recorded_clinical_notes claim);
                   gap = billedSeverity - level noteAnalysis
               in if shouldFlag hasEvidence billedSeverity gap then
                    let effectiveNoteSeverity =
                          (if hasEvidence then level noteAnalysis else min (level noteAnalysis) 1)
                    in [\<lparr>sm_claim_id = claim_id claim,
                         sm_cpt_code = cpt_code claim,
                         billed_severity = billedSeverity,
                         note_severity = effectiveNoteSeverity,
                         severity_gap = billedSeverity - effectiveNoteSeverity,
                         sm_billed_amount = billed_amount_inr claim,
                         sm_explanation =
                           (if hasEvidence
                            then generateExplanation billedSeverity (level noteAnalysis)
                            else MissingDocumentation)\<rparr>]
                  else []
             else if category cptInfo \<noteq> ''E&M'' then []
             else if billedSeverity \<le> 2 then []
             else
               let inferredSeverity = min (maxSupportedSeverity clinicalPicture + 1) 5;
                   gap = billedSeverity - inferredSeverity
               in if gap \<ge> 2 then
                    [\<lparr>sm_claim_id = claim_id claim,
                      sm_cpt_code = cpt_code claim,
                      billed_severity = billedSeverity,
                      note_severity = inferredSeverity,
                      severity_gap = gap,
                      sm_billed_amount = billed_amount_inr claim,
                      sm_explanation = generateExplanation billedSeverity inferredSeverity\<rparr>]
                  else [])"

definition countLevel :: "nat \<Rightarrow> risk_level" where
  \<comment> \<open>\<open>>= 3\<close> CRITICAL, \<open>>= 2\<close> HIGH, \<open>>= 1\<close> MEDIUM, else LOW\<close>
  "countLevel flaggedCount =
     (if flaggedCount \<ge> 3 then CRITICAL
      else if flaggedCount \<ge> 2 then HIGH
      else if flaggedCount \<ge> 1 then MEDIUM
      else LOW)"

definition runCrossModalAudit :: "ClaimItem list \<Rightarrow> CPTDatabase \<Rightarrow> CrossModalResult" where
  "runCrossModalAudit claims cptDb =
     (let clinicalPicture = inferClinicalPicture claims cptDb;
          found = concat (map (auditClaim clinicalPicture cptDb) claims)
      in \<lparr>mismatches = found,
          cm_total_claims = length claims,
          cm_flagged_count = length found,
          cm_risk_level = countLevel (length found)\<rparr>)"

section \<open>Timeline conflict detector (\<open>timeline-detective.ts\<close>)\<close>

text \<open>
  A \<open>Date\<close> is its time value, the milliseconds since the epoch, as an integer; the
  limit of the time values (\<open>8.64e15\<close> ms, below \<open>2^53\<close>) is not modelled. An event
  carries its two time values: the source stores them as ISO strings and parses them back,
  which returns the same time values. What the run takes from the JavaScript runtime is a
  parameter: \<open>parse s\<close> is the time value of \<open>new Date(s)\<close> (\<open>None\<close> for an invalid
  date), \<open>now\<close> the time value of \<open>new Date()\<close> and \<open>today\<close> its date,
  \<open>new Date().toISOString().split('T')[0]\<close> (the clock is read as one instant during a
  run), and \<open>math_sin\<close>, \<open>math_cos\<close>, \<open>math_sqrt\<close> and \<open>math_atan2\<close> are the
  functions of \<open>Math\<close>, whose results the language leaves to the implementation.
\<close>

record runtime =
  parse :: "string \<Rightarrow> int option"
  now :: int
  today :: string
  math_sin :: "jsnum \<Rightarrow> jsnum"
  math_cos :: "jsnum \<Rightarrow> jsnum"
  math_sqrt :: "jsnum \<Rightarrow> jsnum"
  math_atan2 :: "jsnum \<Rightarrow> jsnum \<Rightarrow> jsnum"

definition DEFAULT_DURATIONS :: "(string \<times> int) list" where
  "DEFAULT_DURATIONS =
     [(''E&M'', 30), (''Critical Care'', 60), (''Radiology'', 45), (''Surgery'', 120),
      (''Physical Therapy'', 30), (''Supplies'', 10)]"

definition MATH_PI :: jsnum where
  \<comment> \<open>\<open>Math.PI\<close>, the binary64 value nearest to pi\<close>
  "MATH_PI = num 3.141592653589793"

definition haversineDistance :: "runtime \<Rightarrow> jsnum \<Rightarrow> jsnum \<Rightarrow> jsnum \<Rightarrow> jsnum \<Rightarrow> jsnum" where
  \<comment> \<open>products and sums associate to the left, as the source's expression does\<close>
  "haversineDistance rt lat1 lng1 lat2 lng2 =
     (let R = Fin 6371;
          dLat = jdiv (jmul (jsub lat2 lat1) MATH_PI) (Fin 180);
          dLng = jdiv (jmul (jsub lng2 lng1) MATH_PI) (Fin 180);
          a = jadd (jmul (math_sin rt (jdiv dLat (Fin 2))) (math_sin rt (jdiv dLat (Fin 2))))
                   (jmul (jmul (jmul (math_cos rt (jdiv (jmul lat1 MATH_PI) (Fin 180)))
                                     (math_cos rt (jdiv (jmul lat2 MATH_PI) (Fin 180))))
                               (math_sin rt (jdiv dLng (Fin 2))))
                         (math_sin rt (jdiv dLng (Fin 2))));
          c = jmul (Fin 2) (math_atan2 rt (math_sqrt rt a) (math_sqrt rt (jsub (Fin 1) a)))
      in jmul R c)"

definition parseDateTime :: "runtime \<Rightarrow> string \<Rightarrow> string \<Rightarrow> int" where
  "parseDateTime rt d t =
     (let validDate = (if nonblank d then d else today rt);
          validTime = (if nonblank t then t else ''12:00'')
      in case parse rt (validDate @ ''T'' @ validTime @ '':00'') of
           None \<Rightarrow> now rt
         | Some v \<Rightarrow> v)"

definition durationMinutes :: "CPTDatabase \<Rightarrow> ClaimItem \<Rightarrow> int" where
  \<comment> \<open>\<open>DEFAULT_DURATIONS[cptInfo?.category || 'E&M'] || 30\<close>\<close>
  "durationMinutes cptDb claim =
     (let cat = (case codes cptDb (cpt_code claim) of
                   None \<Rightarrow> ''E&M''
                 | Some cptInfo \<Rightarrow> if category cptInfo = [] then ''E&M'' else category cptInfo)
      in case map_of DEFAULT_DURATIONS cat of None \<Rightarrow> 30 | Some m \<Rightarrow> m)"

definition claimToEvent :: "runtime \<Rightarrow> CPTDatabase \<Rightarrow> ClaimItem \<Rightarrow> TimelineEvent" where
  "claimToEvent rt cptDb claim =
     (let startDate = parseDateTime rt (date claim) (time claim)
      in \<lparr>ev_claim_id = claim_id claim,
          start_time = startDate,
          end_time = startDate + durationMinutes cptDb claim * 60000,
          ev_department = department claim,
          ev_location_lat = location_lat claim,
          ev_location_lng = location_lng claim\<rparr>)"

definition claimsToEvents :: "runtime \<Rightarrow> ClaimItem list \<Rightarrow> CPTDatabase \<Rightarrow> TimelineEvent list" where
  "claimsToEvents rt claims cptDb = map (claimToEvent rt cptDb) claims"

definition intervalsOverlap :: "int \<Rightarrow> int \<Rightarrow> int \<Rightarrow> int \<Rightarrow> jsnum" where
  "intervalsOverlap startA endA startB endB =
     (let overlapStart = max startA startB;
          overlapEnd = min endA endB;
          overlapMs = overlapEnd - overlapStart
      in if overlapMs > 0 then jdiv (Fin (of_int overlapMs)) (Fin 60000) else Fin 0)"

definition hasCoord :: "jsnum option \<Rightarrow> bool" where
  \<comment> \<open>the truth value of an optional coordinate: \<open>undefined\<close>, \<open>0\<close> and NaN are falsy\<close>
  "hasCoord v = (case v of None \<Rightarrow> False | Some x \<Rightarrow> truthy x)"

definition coord :: "jsnum option \<Rightarrow> jsnum" where
  \<comment> \<open>\<open>undefined\<close> passed as a number is NaN\<close>
  "coord v = (case v of None \<Rightarrow> NaN | Some x \<Rightarrow> x)"

definition timeDiffHours :: "TimelineEvent \<Rightarrow> TimelineEvent \<Rightarrow> jsnum" where
  \<comment> \<open>\<open>Math.abs(startB.getTime() - startA.getTime()) / 3600000\<close>\<close>
  "timeDiffHours a b = jdiv (Fin (of_int \<bar>start_time b - start_time a\<bar>)) (Fin 3600000)"

definition checkPair :: "runtime \<Rightarrow> TimelineEvent \<Rightarrow> TimelineEvent \<Rightarrow> TimelineOverlap list" where
  \<comment> \<open>the body of the loop over the pairs: the overlap it pushes\<close>
  "checkPair rt a b =
     (let overlapMinutes = intervalsOverlap (start_time a) (end_time a) (start_time b) (end_time b)
      in if jgt overlapMinutes (Fin 0) then
           let differentLocation = (ev_department a \<noteq> ev_department b)
           in if differentLocation \<and> hasCoord (ev_location_lat a) \<and> hasCoord (ev_location_lng a)
                 \<and> hasCoord (ev_location_lat b) \<and> hasCoord (ev_location_lng b)
              then
                let distance = haversineDistance rt (coord (ev_location_lat a))
                                 (coord (ev_location_lng a)) (coord (ev_location_lat b))
                                 (coord (ev_location_lng b));
                    requiredSpeed = (if jgt (timeDiffHours a b) (Fin 0)
                                     then jdiv distance (timeDiffHours a b)
                                     else PInf)
                in if jgt distance (Fin 5)
                   then [\<lparr>event_a = a, event_b = b, overlap_minutes = overlapMinutes,
                          ov_explanation = ImpossibleTravel, ov_type = TELEPORTATION,
                          required_speed_kmh = Some requiredSpeed\<rparr>]
                   else [\<lparr>event_a = a, event_b = b, overlap_minutes = overlapMinutes,
                          ov_explanation = TimeOverlap, ov_type = OVERLAP,
                          required_speed_kmh = Some requiredSpeed\<rparr>]
              else if differentLocation
              then [\<lparr>event_a = a, event_b = b, overlap_minutes = overlapMinutes,
                     ov_explanation = DifferentLocationOverlap, ov_type = OVERLAP,
                     required_speed_kmh = None\<rparr>]
              else [\<lparr>event_a = a, event_b = b, overlap_minutes = overlapMinutes,
                     ov_explanation = SameLocationOverlap, ov_type = OVERLAP,
                     required_speed_kmh = None\<rparr>]
         else [])"

fun scanPairs :: "runtime \<Rightarrow> TimelineEvent list \<Rightarrow> TimelineOverlap list" where
  \<comment> \<open>\<open>for (i ...) for (j = i + 1 ...)\<close>: each event against the later ones, in order\<close>
  "scanPairs rt [] = []"
| "scanPairs rt (a # rest) = concat (map (checkPair rt a) rest) @ scanPairs rt rest"

definition timelineLevel :: "TimelineOverlap list \<Rightarrow> risk_level" where
  "timelineLevel found =
     (if \<exists>ov \<in> set found. ov_type ov = TELEPORTATION then CRITICAL
      else if length found \<ge> 3 then HIGH
      else if length found \<ge> 1 then MEDIUM
      else LOW)"

definition runTimelineDetective :: "runtime \<Rightarrow> ClaimItem list \<Rightarrow> CPTDatabase \<Rightarrow> TimelineResult" where
  "runTimelineDetective rt claims cptDb =
     (let evs = claimsToEvents rt claims cptDb;
          found = scanPairs rt evs
      in \<lparr>events = evs, overlaps = found, tl_flagged_count = length found,
          tl_risk_level = timelineLevel found\<rparr>)"

section \<open>Ghost and unbundling detector (\<open>ghost-unbundle-hunter.ts\<close>)\<close>

definition SEMANTIC_GROUPS :: "(string \<times> string list) list" where
  "SEMANTIC_GROUPS =
     [(''mri'', [''mri'', ''magnetic resonance'', ''tesla'', ''t1-weighted'', ''t2-weighted'',
                ''flair'', ''stir'', ''mri brain'', ''axial'', ''sagittal'', ''coronal'']),
      (''xray'', [''x-ray'', ''xray'', ''radiograph'', ''film'', ''views'', ''ap '', ''lateral'']),
      (''ct'', [''ct scan'', ''computed tomography'', ''cat scan'']),
      (''surgery'', [''surgery'', ''surgical'', ''incision'', ''excision'', ''resection'',
                    ''operation'', ''operat'']),
      (''appendectomy'', [''appendix'', ''appendectomy'', ''appendiceal'', ''cecum'']),
      (''laparoscopy'', [''laparoscop'', ''trocar'', ''abdomen inflated'', ''scope'',
                        ''minimally invasive'']),
      (''suture'', [''suture'', ''stitch'', ''closure'', ''wound closure'', ''closed with'']),
      (''physio'', [''physiotherapy'', ''physical therapy'', ''exercise'', ''rehabilitation'',
                   ''rehab'', ''therapeutic exercise'']),
      (''pharmacy'', [''medication'', ''drug'', ''prescribed'', ''tablet'', ''capsule'', ''brace'',
                     ''supplies'', ''tab'', ''rice'', ''ice'', ''compression'', ''ibuprofen'',
                     ''mg '', ''bd '', '' x '']),
      (''emergency'', [''emergency'', ''ed visit'', ''er visit'', ''trauma'', ''acute presentation'',
                      ''triage'', ''resuscitation'', ''emergency department'']),
      (''brain'', [''brain'', ''cerebral'', ''cranial'', ''neurological'', ''head'', ''neuro'',
                  ''mental status'', ''consciousness''])]"

definition BODY_AREA_MAP :: "(string \<times> string list \<times> string list) list" where
  \<comment> \<open>area, codes, keywords\<close>
  "BODY_AREA_MAP =
     [(''ankle/foot'', [''73600'', ''73610'', ''73620'', ''73630''],
         [''ankle'', ''foot'', ''tarsal'', ''metatarsal'']),
      (''knee'', [''73560'', ''73721'', ''27447''], [''knee'', ''patellar'', ''tibial'']),
      (''hip'', [''73501'', ''73721''], [''hip'', ''femoral'', ''acetabulum'']),
      (''brain/head'', [''70553'', ''70551'', ''70552'', ''70540''],
         [''brain'', ''head'', ''cranial'', ''cerebral'', ''neurological'']),
      (''abdomen'', [''49320'', ''44950'', ''44970'', ''74177''],
         [''abdomen'', ''abdominal'', ''appendix'', ''laparoscop'', ''bowel'']),
      (''chest'', [''71046'', ''71275''], [''chest'', ''thorax'', ''pulmonary'', ''cardiac'', ''lung'']),
      (''spine'', [''72148'', ''72141''], [''spine'', ''spinal'', ''lumbar'', ''cervical'', ''vertebral'']),
      (''wrist/hand'', [''73100'', ''73110'', ''73120''], [''wrist'', ''hand'', ''carpal'', ''metacarpal'']),
      (''shoulder'', [''73221'', ''23472''], [''shoulder'', ''rotator'', ''acromial'', ''clavicle''])]"

definition GENERIC_CATEGORIES :: "string list" where
  "GENERIC_CATEGORIES = [''E&M'', ''Supplies'', ''Physical Therapy'']"

definition getBodyArea :: "string \<Rightarrow> string \<Rightarrow> string option" where
  \<comment> \<open>the first area of the table with the code or with a keyword of the description\<close>
  "getBodyArea cptCode description =
     (let lowerDesc = toLowerCase description
      in map_option fst
           (find (\<lambda>e. cptCode \<in> set (fst (snd e))
                       \<or> (\<exists>kw \<in> set (snd (snd e)). str_includes lowerDesc kw))
                 BODY_AREA_MAP))"

definition getRelevantGroups :: "string \<Rightarrow> string list" where
  "getRelevantGroups cptDescription =
     (let lower = toLowerCase cptDescription
      in map fst (filter (\<lambda>g. \<exists>kw \<in> set (snd g). str_includes lower kw) SEMANTIC_GROUPS))"

definition groupKeywords :: "string \<Rightarrow> string list" where
  \<comment> \<open>\<open>SEMANTIC_GROUPS[group]\<close>, for a group of the table\<close>
  "groupKeywords g = (case map_of SEMANTIC_GROUPS g of None \<Rightarrow> [] | Some ks \<Rightarrow> ks)"

definition hasDenial :: "string \<Rightarrow> bool" where
  \<comment> \<open>the explicit denial patterns, on the lower-cased notes\<close>
  "hasDenial lowerNotes =
     (str_includes lowerNotes ''no record found''
      \<or> (str_includes lowerNotes ''not required'' \<and> length lowerNotes < 100)
      \<or> str_includes lowerNotes ''no clinical notes available'')"

definition calculateSimilarity :: "string \<Rightarrow> string \<Rightarrow> jsnum" where
  "calculateSimilarity cptDescription notes =
     (let relevantGroups = getRelevantGroups cptDescription
      in if relevantGroups = [] then Fin (1 / 2)
         else
           let lowerNotes = toLowerCase notes;
               candidates = concat (map groupKeywords relevantGroups);
               totalKeywords = length candidates;
               matchCount = length (filter (\<lambda>kw. str_includes lowerNotes kw) candidates)
           in if hasDenial lowerNotes then Fin 0
              else if totalKeywords > 0 then jdiv (Fin (of_nat matchCount)) (Fin (of_nat totalKeywords))
              else Fin (1 / 2))"

record BodyArea =
  ba_code :: string
  ba_area :: "string option"
  ba_category :: string

definition categoryOf :: "CPTDatabase \<Rightarrow> ClaimItem \<Rightarrow> string" where
  \<comment> \<open>\<open>cptInfo?.category || 'Unknown'\<close>\<close>
  "categoryOf cptDb c =
     (case codes cptDb (cpt_code c) of
        None \<Rightarrow> ''Unknown''
      | Some cptInfo \<Rightarrow> if category cptInfo = [] then ''Unknown'' else category cptInfo)"

definition bodyAreasOf :: "ClaimItem list \<Rightarrow> CPTDatabase \<Rightarrow> BodyArea list" where
  "bodyAreasOf claims cptDb =
     map (\<lambda>c. \<lparr>ba_code = cpt_code c, ba_area = getBodyArea (cpt_code c) (cpt_description c),
               ba_category = categoryOf cptDb c\<rparr>) claims"

definition countArea :: "(string \<times> nat) list \<Rightarrow> BodyArea \<Rightarrow> (string \<times> nat) list" where
  "countArea areaCounts ba =
     (case ba_area ba of
        None \<Rightarrow> areaCounts
      | Some area \<Rightarrow>
          if area \<noteq> [] \<and> ba_category ba \<notin> set GENERIC_CATEGORIES
          then AList.update area (countOf areaCounts area + 1) areaCounts
          else areaCounts)"

definition dominantAreaOf :: "BodyArea list \<Rightarrow> string option" where
  \<comment> \<open>\<open>sortedAreas[0]?.[0] || null\<close>\<close>
  "dominantAreaOf bodyAreas =
     (case sortByCountDesc (foldl countArea [] bodyAreas) of
        [] \<Rightarrow> None
      | e # _ \<Rightarrow> if fst e = [] then None else Some (fst e))"

definition ghostOfClaim ::
  "CPTDatabase \<Rightarrow> BodyArea list \<Rightarrow> string option \<Rightarrow> nat \<Rightarrow> ClaimItem \<Rightarrow> GhostService list" where
  \<comment> \<open>the body of the loop over the claims, for the claim at index \<open>i\<close>\<close>
  "ghostOfClaim cptDb bodyAreas dominantArea i claim =
     (if nonblank (recorded_clinical_notes claim) then
        let score = calculateSimilarity (cpt_description claim) (recorded_clinical_notes claim)
        in if jlt score (num 0.15)
           then [\<lparr>gs_claim_id = claim_id claim, gs_cpt_code = cpt_code claim,
                  gs_billed_amount = billed_amount_inr claim, similarity_score = score,
                  gs_explanation = (if score = Fin 0 then PhantomBilling else InsufficientEvidence)\<rparr>]
           else []
      else if categoryOf cptDb claim \<in> set GENERIC_CATEGORIES then []
      else
        case ba_area (bodyAreas ! i) of
          None \<Rightarrow> []
        | Some thisArea \<Rightarrow>
            if thisArea = [] then []
            else
              (case dominantArea of
                 None \<Rightarrow> []
               | Some domArea \<Rightarrow>
                   if thisArea \<noteq> domArea then
                     let hasRelatedService =
                           (\<exists>idx \<in> set [0 ..< length bodyAreas].
                              idx \<noteq> i \<and> ba_area (bodyAreas ! idx) = Some thisArea
                              \<and> ba_category (bodyAreas ! idx) \<notin> set GENERIC_CATEGORIES)
                     in if \<not> hasRelatedService
                        then [\<lparr>gs_claim_id = claim_id claim, gs_cpt_code = cpt_code claim,
                               gs_billed_amount = billed_amount_inr claim,
                               similarity_score = Fin 0, gs_explanation = UnrelatedArea\<rparr>]
                        else []
                   else []))"

definition detectGhostServices :: "ClaimItem list \<Rightarrow> CPTDatabase \<Rightarrow> GhostService list" where
  \<comment> \<open>\<open>bodyAreas\<close> has one entry per claim, so \<open>bodyAreas[i]\<close> is always in range\<close>
  "detectGhostServices claims cptDb =
     (let bodyAreas = bodyAreasOf claims cptDb;
          dominantArea = dominantAreaOf bodyAreas
      in concat (map (\<lambda>i. ghostOfClaim cptDb bodyAreas dominantArea i (claims ! i))
                     [0 ..< length claims]))"

definition billedCodes :: "ClaimItem list \<Rightarrow> string set" where
  \<comment> \<open>\<open>new Set(claims.map(c => c.cpt_code))\<close>\<close>
  "billedCodes claims = set (map cpt_code claims)"

definition presentBundled :: "ClaimItem list \<Rightarrow> NCCIBundle \<Rightarrow> string list" where
  "presentBundled claims bundle = filter (\<lambda>c. c \<in> billedCodes claims) (bundled_codes bundle)"

definition involvedCodesOf :: "ClaimItem list \<Rightarrow> NCCIBundle \<Rightarrow> string list" where
  "involvedCodesOf claims bundle = primary_code bundle # presentBundled claims bundle"

definition involvedClaimsOf :: "ClaimItem list \<Rightarrow> NCCIBundle \<Rightarrow> ClaimItem list" where
  "involvedClaimsOf claims bundle =
     filter (\<lambda>c. cpt_code c \<in> set (involvedCodesOf claims bundle)) claims"

definition correctCostOf :: "CPTDatabase \<Rightarrow> NCCIBundle \<Rightarrow> jsnum \<Rightarrow> jsnum" where
  \<comment> \<open>\<open>correctCostInfo?.avg_cost_inr || totalBilled * 0.6\<close>\<close>
  "correctCostOf cptDb bundle billedTotal =
     (case codes cptDb (correct_single_code bundle) of
        None \<Rightarrow> jmul billedTotal (num 0.6)
      | Some correctCostInfo \<Rightarrow>
          if truthy (avg_cost_inr correctCostInfo) then avg_cost_inr correctCostInfo
          else jmul billedTotal (num 0.6))"

definition alertsOfBundle :: "ClaimItem list \<Rightarrow> CPTDatabase \<Rightarrow> NCCIBundle \<Rightarrow> UnbundlingAlert list" where
  \<comment> \<open>the body of the loop over the bundling rules: the alert it pushes\<close>
  "alertsOfBundle claims cptDb bundle =
     (let hasPrimary = (primary_code bundle \<in> billedCodes claims)
      in if hasPrimary \<and> length (presentBundled claims bundle) > 0 then
           let involvedClaims = involvedClaimsOf claims bundle;
               billedTotal = jsum (map billed_amount_inr involvedClaims);
               correctCost = correctCostOf cptDb bundle billedTotal
           in [\<lparr>involved_claims = map claim_id involvedClaims,
                involved_codes = involvedCodesOf claims bundle,
                total_billed = billedTotal,
                correct_code = correct_single_code bundle,
                correct_cost = correctCost,
                potential_savings = jsub billedTotal correctCost\<rparr>]
         else [])"

definition detectUnbundling :: "ClaimItem list \<Rightarrow> CPTDatabase \<Rightarrow> UnbundlingAlert list" where
  "detectUnbundling claims cptDb =
     foldl (\<lambda>alerts bundle. alerts @ alertsOfBundle claims cptDb bundle) [] (ncci_bundles cptDb)"

definition runGhostUnbundleHunter :: "ClaimItem list \<Rightarrow> CPTDatabase \<Rightarrow> GhostUnbundleResult" where
  "runGhostUnbundleHunter claims cptDb =
     (let ghostServices = detectGhostServices claims cptDb;
          unbundlingAlerts = detectUnbundling claims cptDb;
          ghostSavings = jsum (map gs_billed_amount ghostServices);
          unbundleSavings = jsum (map potential_savings unbundlingAlerts);
          flaggedCount = length ghostServices + length unbundlingAlerts
      in \<lparr>ghost_services = ghostServices,
          unbundling_alerts = unbundlingAlerts,
          total_potential_savings = jadd ghostSavings unbundleSavings,
          gu_flagged_count = flaggedCount,
          gu_risk_level = countLevel flaggedCount\<rparr>)"

section \<open>Risk aggregator (\<open>xai-advisor.ts\<close>)\<close>

definition totalBilled :: "ClaimItem list \<Rightarrow> jsnum" where
  \<comment> \<open>\<open>claims.reduce((sum, c) => sum + c.billed_amount_inr, 0)\<close>\<close>
  "totalBilled claims = jsum (map billed_amount_inr claims)"

definition avgExpected :: "ClaimItem list \<Rightarrow> CPTDatabase \<Rightarrow> jsnum" where
  \<comment> \<open>the sum of \<open>info?.avg_cost_inr || 0\<close> over the claims\<close>
  "avgExpected claims cptDb =
     jsum (map (\<lambda>c. case codes cptDb (cpt_code c) of
                        None \<Rightarrow> Fin 0
                      | Some info \<Rightarrow> if truthy (avg_cost_inr info) then avg_cost_inr info else Fin 0)
               claims)"

definition mathMax :: "int list \<Rightarrow> jsnum" where
  \<comment> \<open>\<open>Math.max(...xs)\<close>, which is \<open>-Infinity\<close> on no arguments\<close>
  "mathMax xs = foldl (\<lambda>acc x. jmax acc (Fin (of_int x))) NInf xs"

definition severityFactor :: "CrossModalResult \<Rightarrow> RiskFactor list" where
  "severityFactor crossModal =
     (if mismatches crossModal \<noteq> [] then
        let maxGap = mathMax (map severity_gap (mismatches crossModal));
            contribution = jmin (jmul maxGap (num 0.12)) (num 0.35)
        in [\<lparr>factor_name = ''Severity Mismatch'', contribution = contribution, direction = RISK\<rparr>]
      else [\<lparr>factor_name = ''Severity Match'', contribution = num (- 0.08), direction = SAFE\<rparr>])"

definition timelineFactor :: "TimelineResult \<Rightarrow> RiskFactor list" where
  "timelineFactor timeline =
     (if overlaps timeline \<noteq> [] then
        let hasTeleportation = (\<exists>ov \<in> set (overlaps timeline). ov_type ov = TELEPORTATION);
            contribution = (if hasTeleportation then num 0.30
                            else jmul (Fin (of_nat (length (overlaps timeline)))) (num 0.10))
        in [\<lparr>factor_name = (if hasTeleportation then ''Impossible Travel'' else ''Time Overlaps''),
             contribution = jmin contribution (num 0.35), direction = RISK\<rparr>]
      else [\<lparr>factor_name = ''Timeline Clean'', contribution = num (- 0.05), direction = SAFE\<rparr>])"

definition ghostFactor :: "GhostUnbundleResult \<Rightarrow> ClaimItem list \<Rightarrow> RiskFactor list" where
  "ghostFactor ghostUnbundle claims =
     (if ghost_services ghostUnbundle \<noteq> [] then
        let ghostAmount = jsum (map gs_billed_amount (ghost_services ghostUnbundle));
            contribution =
              jmin (jadd (num 0.10) (jmul (jdiv ghostAmount (totalBilled claims)) (num 0.3)))
                   (num 0.30)
        in [\<lparr>factor_name = ''Phantom Charges'', contribution = contribution, direction = RISK\<rparr>]
      else [])"

definition unbundlingFactor :: "GhostUnbundleResult \<Rightarrow> ClaimItem list \<Rightarrow> RiskFactor list" where
  "unbundlingFactor ghostUnbundle claims =
     (if unbundling_alerts ghostUnbundle \<noteq> [] then
        let savings = total_potential_savings ghostUnbundle;
            contribution =
              jmin (jadd (num 0.08) (jmul (jdiv savings (totalBilled claims)) (num 0.2)))
                   (num 0.25)
        in [\<lparr>factor_name = ''Code Unbundling'', contribution = contribution, direction = RISK\<rparr>]
      else [])"

definition costFactor :: "ClaimItem list \<Rightarrow> CPTDatabase \<Rightarrow> RiskFactor list" where
  "costFactor claims cptDb =
     (if jgt (avgExpected claims cptDb) (Fin 0) then
        let costRatio = jdiv (totalBilled claims) (avgExpected claims cptDb)
        in if jgt costRatio (Fin (3 / 2))
           then [\<lparr>factor_name = ''Excessive Billing'',
                  contribution = jmin (jmul (jsub costRatio (Fin 1)) (num 0.1)) (num 0.20),
                  direction = RISK\<rparr>]
           else [\<lparr>factor_name = ''Cost Normal'', contribution = num (- 0.05), direction = SAFE\<rparr>]
      else [])"

definition missingDocs :: "ClaimItem list \<Rightarrow> nat" where
  "missingDocs claims =
     length (filter (\<lambda>c. str_includes (toLowerCase (recorded_clinical_notes c)) ''no record''
                          \<or> length (recorded_clinical_notes c) < 20) claims)"

definition documentationFactor :: "ClaimItem list \<Rightarrow> RiskFactor list" where
  "documentationFactor claims =
     (if 0 < missingDocs claims
      then [\<lparr>factor_name = ''Poor Documentation'',
             contribution = jmul (Fin (of_nat (missingDocs claims))) (num 0.08), direction = RISK\<rparr>]
      else [\<lparr>factor_name = ''Documentation Complete'', contribution = num (- 0.05),
             direction = SAFE\<rparr>])"

definition calculateFactors ::
  "CrossModalResult \<Rightarrow> TimelineResult \<Rightarrow> GhostUnbundleResult \<Rightarrow> ClaimItem list \<Rightarrow> CPTDatabase
   \<Rightarrow> RiskFactor list" where
  \<comment> \<open>the six blocks push their factor in this order\<close>
  "calculateFactors crossModal timeline ghostUnbundle claims cptDb =
     severityFactor crossModal @ timelineFactor timeline @ ghostFactor ghostUnbundle claims
     @ unbundlingFactor ghostUnbundle claims @ costFactor claims cptDb
     @ documentationFactor claims"

definition riskContribution :: "RiskFactor list \<Rightarrow> jsnum" where
  "riskContribution fs = jsum (map contribution (filter (\<lambda>f. direction f = RISK) fs))"

definition safeContribution :: "RiskFactor list \<Rightarrow> jsnum" where
  "safeContribution fs =
     jsum (map (\<lambda>f. jabs (contribution f)) (filter (\<lambda>f. direction f = SAFE) fs))"

definition rawScore :: "RiskFactor list \<Rightarrow> jsnum" where
  \<comment> \<open>\<open>baseScore + riskContribution * 100 - safeContribution * 15\<close> with \<open>baseScore = 10\<close>\<close>
  "rawScore fs =
     jsub (jadd (Fin 10) (jmul (riskContribution fs) (Fin 100)))
          (jmul (safeContribution fs) (Fin 15))"

definition riskScore :: "RiskFactor list \<Rightarrow> jsnum" where
  \<comment> \<open>\<open>Math.round(Math.max(0, Math.min(100, rawScore)))\<close>\<close>
  "riskScore fs = jround (jmax (Fin 0) (jmin (Fin 100) (rawScore fs)))"

definition riskLevel :: "jsnum \<Rightarrow> risk_level" where
  "riskLevel score =
     (if jge score (Fin 75) then CRITICAL
      else if jge score (Fin 50) then HIGH
      else if jge score (Fin 25) then MEDIUM
      else LOW)"

definition recommendationOf :: "jsnum \<Rightarrow> recommendation" where
  "recommendationOf score =
     (if jge score (Fin 75) then REJECT
      else if jge score (Fin 50) then ESCALATE
      else if jge score (Fin 25) then REVIEW
      else APPROVE)"

definition runXAIAdvisor ::
  "CrossModalResult \<Rightarrow> TimelineResult \<Rightarrow> GhostUnbundleResult \<Rightarrow> ClaimItem list \<Rightarrow> CPTDatabase
   \<Rightarrow> XAIResult" where
  \<comment> \<open>the value that the promise of a call resolves to; the narrative (local template or
      external brief) is display text and left out\<close>
  "runXAIAdvisor crossModal timeline ghostUnbundle claims cptDb =
     (let fs = calculateFactors crossModal timeline ghostUnbundle claims cptDb;
          score = riskScore fs;
          potentialSavings = total_potential_savings ghostUnbundle
      in \<lparr>risk_score = score,
          xai_risk_level = riskLevel score,
          factors = fs,
          recommendation = recommendationOf score,
          financial_summary =
            \<lparr>billed_amount = totalBilled claims,
             expected_amount = jsub (totalBilled claims) potentialSavings,
             fs_potential_savings = potentialSavings\<rparr>\<rparr>)"

section \<open>Orchestrator (\<open>analyzer.ts\<close>) and the route \<open>/api/analyze\<close>\<close>

text \<open>
  \<open>runXAIAdvisor\<close> is asynchronous: a call returns a promise. \<open>analyzeFullClaim\<close> is
  not asynchronous and stores the promise in the field \<open>xai\<close> without awaiting it. A
  promise is modelled by the value it resolves to; what holds a promise has none of the
  fields of that value. The result is modelled without its time stamp.
\<close>

datatype 'a promise = Promise 'a

fun resolved :: "'a promise \<Rightarrow> 'a" where
  \<comment> \<open>what awaiting the promise would give\<close>
  "resolved (Promise v) = v"

definition runXAIAdvisorAsync ::
  "CrossModalResult \<Rightarrow> TimelineResult \<Rightarrow> GhostUnbundleResult \<Rightarrow> ClaimItem list \<Rightarrow> CPTDatabase
   \<Rightarrow> XAIResult promise" where
  \<comment> \<open>the call of the asynchronous function\<close>
  "runXAIAdvisorAsync crossModal timelineRes ghostUnbundle claims cptDb =
     Promise (runXAIAdvisor crossModal timelineRes ghostUnbundle claims cptDb)"

record FullAnalysisResult =
  fa_patient_name :: string
  total_claims :: nat
  fa_total_billed :: jsnum
  cross_modal :: CrossModalResult
  timeline :: TimelineResult
  ghost_unbundle :: GhostUnbundleResult
  xai :: "XAIResult promise"
  fa_claims :: "ClaimItem list"

definition analyzeFullClaim :: "runtime \<Rightarrow> ClaimItem list \<Rightarrow> CPTDatabase \<Rightarrow> FullAnalysisResult" where
  "analyzeFullClaim rt claims cptDb =
     (let crossModal = runCrossModalAudit claims cptDb;
          timelineRes = runTimelineDetective rt claims cptDb;
          ghostUnbundle = runGhostUnbundleHunter claims cptDb;
          xaiRes = runXAIAdvisorAsync crossModal timelineRes ghostUnbundle claims cptDb
      in \<lparr>fa_patient_name =
            (case claims of [] \<Rightarrow> ''Unknown''
             | c # _ \<Rightarrow> if patient_name c = [] then ''Unknown'' else patient_name c),
          total_claims = length claims,
          fa_total_billed = totalBilled claims,
          cross_modal = crossModal,
          timeline = timelineRes,
          ghost_unbundle = ghostUnbundle,
          xai = xaiRes,
          fa_claims = claims\<rparr>)"

text \<open>
  The request body of the route: unreadable (not JSON, or \<open>null\<close>, where reading
  \<open>body.claims\<close> throws), or a value whose \<open>claims\<close> is an array or is not
  (\<open>None\<close>). An element of the array is \<open>null\<close> (\<open>None\<close>) or carries the fields it
  has: a text field is absent or a string, a numeric field is absent or the value that
  \<open>Number\<close> gives it.

  The response body is the result as \<open>JSON.stringify\<close> writes it: the promise in \<open>xai\<close>
  is written as the empty object \<open>{}\<close>, so the response has no score, level,
  recommendation or factor of the risk aggregator. The other fields are kept as the
  objects that are written; in them JSON has \<open>null\<close> for a number that is not finite and
  leaves out a coordinate that is undefined.
\<close>

record RawClaim =
  raw_claim_id :: "string option"
  raw_patient_name :: "string option"
  raw_date :: "string option"
  raw_time :: "string option"
  raw_department :: "string option"
  raw_cpt_code :: "string option"
  raw_cpt_description :: "string option"
  raw_billed_amount_inr :: "jsnum option"
  raw_recorded_clinical_notes :: "string option"
  raw_location_lat :: "jsnum option"
  raw_location_lng :: "jsnum option"

datatype request_body = Unreadable | Body "RawClaim option list option"

datatype http_error = BadRequest400 | InternalServerError500

datatype json_object = EmptyObject

record SentAnalysis =
  sent_patient_name :: string
  sent_total_claims :: nat
  sent_total_billed :: jsnum
  sent_cross_modal :: CrossModalResult
  sent_timeline :: TimelineResult
  sent_ghost_unbundle :: GhostUnbundleResult
  sent_xai :: json_object
  sent_claims :: "ClaimItem list"

definition toJSON :: "FullAnalysisResult \<Rightarrow> SentAnalysis" where
  \<comment> \<open>\<open>NextResponse.json(result)\<close>\<close>
  "toJSON result =
     \<lparr>sent_patient_name = fa_patient_name result,
      sent_total_claims = total_claims result,
      sent_total_billed = fa_total_billed result,
      sent_cross_modal = cross_modal result,
      sent_timeline = timeline result,
      sent_ghost_unbundle = ghost_unbundle result,
      sent_xai = EmptyObject,
      sent_claims = fa_claims result\<rparr>"

definition digit_char :: "nat \<Rightarrow> char" where
  "digit_char n = char_of (48 + n)"

function decimal :: "nat \<Rightarrow> string" where
  "decimal n = (if n < 10 then [digit_char n] else decimal (n div 10) @ [digit_char (n mod 10)])"
  by pat_completeness auto
termination
  by (relation "measure id") auto

definition strOr :: "string option \<Rightarrow> string \<Rightarrow> string" where
  \<comment> \<open>\<open>String(field || dflt)\<close>\<close>
  "strOr field dflt = (case field of None \<Rightarrow> dflt | Some v \<Rightarrow> if v = [] then dflt else v)"

definition coerceClaim :: "nat \<Rightarrow> RawClaim \<Rightarrow> ClaimItem" where
  "coerceClaim i c =
     \<lparr>claim_id = strOr (raw_claim_id c) (''CLM-'' @ decimal (i + 1)),
      patient_name = strOr (raw_patient_name c) ''Unknown'',
      date = strOr (raw_date c) [],
      time = strOr (raw_time c) ''12:00'',
      department = strOr (raw_department c) [],
      cpt_code = strOr (raw_cpt_code c) [],
      cpt_description = strOr (raw_cpt_description c) [],
      billed_amount_inr =
        (case raw_billed_amount_inr c of None \<Rightarrow> Fin 0
         | Some v \<Rightarrow> if truthy v then v else Fin 0),
      recorded_clinical_notes = strOr (raw_recorded_clinical_notes c) [],
      location_lat = raw_location_lat c,
      location_lng = raw_location_lng c\<rparr>"

fun coerceAll :: "nat \<Rightarrow> RawClaim option list \<Rightarrow> ClaimItem list option" where
  \<comment> \<open>\<open>rawClaims.map((c, i) => ...)\<close> from index \<open>i\<close> on; reading a field of \<open>null\<close>
      throws\<close>
  "coerceAll i [] = Some []"
| "coerceAll i (None # rest) = None"
| "coerceAll i (Some c # rest) = map_option (\<lambda>cs. coerceClaim i c # cs) (coerceAll (i + 1) rest)"

definition POST :: "runtime \<Rightarrow> CPTDatabase \<Rightarrow> request_body \<Rightarrow> http_error + SentAnalysis" where
  \<comment> \<open>the status of an error response, or the body that is sent; whatever is thrown
      inside becomes the status 500\<close>
  "POST rt cptDb request =
     (case request of
        Unreadable \<Rightarrow> Inl InternalServerError500
      | Body None \<Rightarrow> Inl BadRequest400
      | Body (Some rawClaims) \<Rightarrow>
          if length rawClaims = 0 then Inl BadRequest400
          else (case coerceAll 0 rawClaims of
                  None \<Rightarrow> Inl InternalServerError500
                | Some claims \<Rightarrow> Inr (toJSON (analyzeFullClaim rt claims cptDb))))"

section \<open>The formulas of the specification, and concrete inputs\<close>

text \<open>
  The definitions named \<open>spec_\<close> follow the words of the specification: the score is
  \<open>clamp(0, 100, round(10 + 100 * RISK - 15 * |SAFE|))\<close> in the arithmetic of the
  language, the bands start at 75, 50 and 25, and an unbundling alert covers the claims
  that bill the primary code or a listed bundled code. The other definitions are a small
  reference database, a runtime (a clock, a parser of three date strings, and the values
  of the \<open>Math\<close> functions at the arguments that the concrete runs reach), and the
  batches and the findings expected for them, which the concrete statements below use.
\<close>

definition spec_clamp :: "jsnum \<Rightarrow> jsnum \<Rightarrow> jsnum \<Rightarrow> jsnum" where
  "spec_clamp lo hi x = jmax lo (jmin hi x)"

definition spec_score :: "RiskFactor list \<Rightarrow> jsnum" where
  "spec_score fs =
     spec_clamp (Fin 0) (Fin 100)
       (jround
          (jsub (jadd (Fin 10)
                   (jmul (Fin 100)
                      (jsum (map contribution (filter (\<lambda>f. direction f = RISK) fs)))))
                (jmul (Fin 15)
                   (jsum (map (\<lambda>f. jabs (contribution f))
                            (filter (\<lambda>f. direction f = SAFE) fs))))))"

definition spec_band :: "jsnum \<Rightarrow> risk_level \<times> recommendation" where
  "spec_band score =
     (if jge score (Fin 75) then (CRITICAL, REJECT)
      else if jge score (Fin 50) then (HIGH, ESCALATE)
      else if jge score (Fin 25) then (MEDIUM, REVIEW)
      else (LOW, APPROVE))"

definition testDb :: CPTDatabase where
  "testDb =
     \<lparr>codes = map_of
        [(''99285'', \<lparr>severity = 5, avg_cost_inr = Fin 9000, category = ''E&M''\<rparr>),
         (''70553'', \<lparr>severity = 4, avg_cost_inr = Fin 8000, category = ''Radiology''\<rparr>),
         (''23650'', \<lparr>severity = 3, avg_cost_inr = Fin 100, category = ''Surgery''\<rparr>),
         (''29240'', \<lparr>severity = 1, avg_cost_inr = Fin 100, category = ''Surgery''\<rparr>),
         (''23655'', \<lparr>severity = 3, avg_cost_inr = Fin 5000, category = ''Surgery''\<rparr>)],
      ncci_bundles =
        [\<lparr>primary_code = ''23650'', bundled_codes = [''29240''], correct_single_code = ''23655''\<rparr>],
      severity_keywords = map_of
        [(''1'', [''stable'', ''mild'']), (''5'', [''critical'', ''unstable''])]\<rparr>"

definition tabulated :: "('a \<times> jsnum) list \<Rightarrow> 'a \<Rightarrow> jsnum" where
  \<comment> \<open>a function given by its values at the arguments that the concrete runs reach\<close>
  "tabulated table x = (case map_of table x of None \<Rightarrow> NaN | Some v \<Rightarrow> v)"

definition testRuntime :: runtime where
  \<comment> \<open>three date strings, and the values of the \<open>Math\<close> functions at the arguments that
      the great-circle distance between latitude 12 and 13 on one meridian, and between a
      point and itself, asks for\<close>
  "testRuntime =
     \<lparr>parse = map_of [(''2026-01-01T10:00:00'', 1767261600000),
                       (''2026-01-01T10:30:00'', 1767263400000),
                       (''2026-01-01T12:00:00'', 1767268800000)],
      now = 1767290000000, today = ''2026-01-01'',
      math_sin = tabulated
        [(Fin 0, Fin 0), (num 0.008726646259971648, num 0.008726535498373935)],
      math_cos = tabulated
        [(num 0.20943951023931953, num 0.9781476007338057),
         (num 0.22689280275926285, num 0.9743700647852352)],
      math_sqrt = tabulated
        [(Fin 0, Fin 0), (Fin 1, Fin 1),
         (num 0.00007615242180438042, num 0.008726535498373935),
         (num 0.9999238475781956, num 0.9999619230641713)],
      math_atan2 = (\<lambda>y x. tabulated
        [((Fin 0, Fin 1), Fin 0),
         ((num 0.008726535498373935, num 0.9999619230641713), num 0.008726646259971648)]
        (y, x))\<rparr>"

definition zeroBilledClaim :: ClaimItem where
  "zeroBilledClaim =
     \<lparr>claim_id = ''CLM-1'', patient_name = ''A'', date = ''2026-01-01'', time = ''10:00'',
      department = ''Radiology'', cpt_code = ''70553'', cpt_description = ''MRI Brain'',
      billed_amount_inr = Fin 0, recorded_clinical_notes = ''no record found'',
      location_lat = None, location_lng = None\<rparr>"

definition unbundledBatch :: "ClaimItem list" where
  "unbundledBatch =
     [\<lparr>claim_id = ''CLM-1'', patient_name = ''A'', date = ''2026-01-01'', time = ''10:00'',
       department = ''Ortho'', cpt_code = ''23650'', cpt_description = ''Shoulder dislocation treatment'',
       billed_amount_inr = Fin 100, recorded_clinical_notes = [],
       location_lat = None, location_lng = None\<rparr>,
      \<lparr>claim_id = ''CLM-2'', patient_name = ''A'', date = ''2026-01-01'', time = ''10:00'',
       department = ''Ortho'', cpt_code = ''29240'', cpt_description = ''Strapping of shoulder'',
       billed_amount_inr = Fin 100, recorded_clinical_notes = [],
       location_lat = None, location_lng = None\<rparr>]"

definition unbundledAlert :: UnbundlingAlert where
  "unbundledAlert =
     \<lparr>involved_claims = [''CLM-1'', ''CLM-2''], involved_codes = [''23650'', ''29240''],
      total_billed = Fin 200, correct_code = ''23655'', correct_cost = Fin 5000,
      potential_savings = Fin (- 4800)\<rparr>"

definition orthoEvent :: "string \<Rightarrow> TimelineEvent" where
  "orthoEvent cid =
     \<lparr>ev_claim_id = cid, start_time = 1767261600000, end_time = 1767268800000,
      ev_department = ''Ortho'', ev_location_lat = None, ev_location_lng = None\<rparr>"

definition orthoOverlap :: TimelineOverlap where
  "orthoOverlap =
     \<lparr>event_a = orthoEvent ''CLM-1'', event_b = orthoEvent ''CLM-2'', overlap_minutes = Fin 120,
      ov_explanation = SameLocationOverlap, ov_type = OVERLAP, required_speed_kmh = None\<rparr>"

definition sevMatch :: RiskFactor where
  "sevMatch = \<lparr>factor_name = ''Severity Match'', contribution = num (- 0.08), direction = SAFE\<rparr>"

definition timeOverlaps :: RiskFactor where
  "timeOverlaps = \<lparr>factor_name = ''Time Overlaps'', contribution = num 0.1, direction = RISK\<rparr>"

definition codeUnbundling :: RiskFactor where
  "codeUnbundling =
     \<lparr>factor_name = ''Code Unbundling'', contribution = num (- 4.720000000000001),
      direction = RISK\<rparr>"

definition timelineClean :: RiskFactor where
  "timelineClean = \<lparr>factor_name = ''Timeline Clean'', contribution = num (- 0.05), direction = SAFE\<rparr>"

definition documentationComplete :: RiskFactor where
  "documentationComplete =
     \<lparr>factor_name = ''Documentation Complete'', contribution = num (- 0.05), direction = SAFE\<rparr>"

definition costNormal :: RiskFactor where
  "costNormal = \<lparr>factor_name = ''Cost Normal'', contribution = num (- 0.05), direction = SAFE\<rparr>"

definition poorDocumentation :: RiskFactor where
  "poorDocumentation =
     \<lparr>factor_name = ''Poor Documentation'', contribution = num 0.16, direction = RISK\<rparr>"

definition zeroBilledRaw :: RawClaim where
  "zeroBilledRaw =
     \<lparr>raw_claim_id = Some ''CLM-1'', raw_patient_name = Some ''A'', raw_date = Some ''2026-01-01'',
      raw_time = Some ''10:00'', raw_department = Some ''Radiology'', raw_cpt_code = Some ''70553'',
      raw_cpt_description = Some ''MRI Brain'', raw_billed_amount_inr = None,
      raw_recorded_clinical_notes = Some ''no record found'',
      raw_location_lat = None, raw_location_lng = None\<rparr>"

definition zeroMismatch :: SeverityMismatch where
  "zeroMismatch =
     \<lparr>sm_claim_id = ''CLM-1'', sm_cpt_code = ''70553'', billed_severity = 4, note_severity = 0,
      severity_gap = 4, sm_billed_amount = Fin 0, sm_explanation = MissingDocumentation\<rparr>"

definition zeroGhost :: GhostService where
  "zeroGhost =
     \<lparr>gs_claim_id = ''CLM-1'', gs_cpt_code = ''70553'', gs_billed_amount = Fin 0,
      similarity_score = Fin 0, gs_explanation = PhantomBilling\<rparr>"

definition geoClaim :: "string \<Rightarrow> string \<Rightarrow> string \<Rightarrow> string \<Rightarrow> real \<Rightarrow> ClaimItem" where
  "geoClaim cid t dept code lat =
     \<lparr>claim_id = cid, patient_name = ''A'', date = ''2026-01-01'', time = t,
      department = dept, cpt_code = code, cpt_description = ''Shoulder treatment'',
      billed_amount_inr = Fin 100, recorded_clinical_notes = [],
      location_lat = Some (Fin lat), location_lng = Some (Fin 77)\<rparr>"

definition farBatch :: "ClaimItem list" where
  \<comment> \<open>two departments, one degree of latitude apart on one meridian, half an hour apart\<close>
  "farBatch =
     [geoClaim ''CLM-1'' ''10:00'' ''PrimeCare Clinic'' ''23650'' 12,
      geoClaim ''CLM-2'' ''10:30'' ''Elite Rehab'' ''29240'' 13]"

definition sameDepartmentBatch :: "ClaimItem list" where
  \<comment> \<open>the same two claims under one department label\<close>
  "sameDepartmentBatch =
     [geoClaim ''CLM-1'' ''10:00'' ''Ortho'' ''23650'' 12,
      geoClaim ''CLM-2'' ''10:30'' ''Ortho'' ''29240'' 13]"

definition nearBatch :: "ClaimItem list" where
  \<comment> \<open>two departments at one position\<close>
  "nearBatch =
     [geoClaim ''CLM-1'' ''10:00'' ''PrimeCare Clinic'' ''23650'' 12,
      geoClaim ''CLM-2'' ''10:30'' ''Elite Rehab'' ''29240'' 12]"

definition equatorBatch :: "ClaimItem list" where
  \<comment> \<open>two departments, the first claim at latitude 0\<close>
  "equatorBatch =
     [geoClaim ''CLM-1'' ''10:00'' ''PrimeCare Clinic'' ''23650'' 0,
      geoClaim ''CLM-2'' ''10:30'' ''Elite Rehab'' ''29240'' 13]"

definition geoEvent :: "string \<Rightarrow> int \<Rightarrow> string \<Rightarrow> real \<Rightarrow> TimelineEvent" where
  "geoEvent cid start dept lat =
     \<lparr>ev_claim_id = cid, start_time = start, end_time = start + 7200000,
      ev_department = dept, ev_location_lat = Some (Fin lat), ev_location_lng = Some (Fin 77)\<rparr>"

definition farDistance :: jsnum where
  "farDistance = num 111.19492664455873"

definition farSpeed :: jsnum where
  "farSpeed = num 222.38985328911747"

definition undatedClaim :: ClaimItem where
  "undatedClaim =
     \<lparr>claim_id = ''CLM-9'', patient_name = ''A'', date = [], time = ''  '',
      department = ''Ortho'', cpt_code = ''23650'', cpt_description = ''Shoulder treatment'',
      billed_amount_inr = Fin 100, recorded_clinical_notes = [],
      location_lat = None, location_lng = None\<rparr>"

definition spec_triggered :: "ClaimItem list \<Rightarrow> NCCIBundle \<Rightarrow> bool" where
  \<comment> \<open>the primary code and at least one of the listed bundled codes appear in the batch\<close>
  "spec_triggered claims bundle =
     (primary_code bundle \<in> set (map cpt_code claims)
      \<and> (\<exists>code \<in> set (bundled_codes bundle). code \<in> set (map cpt_code claims)))"

definition spec_matching :: "ClaimItem list \<Rightarrow> NCCIBundle \<Rightarrow> ClaimItem list" where
  \<comment> \<open>the claims that bill the primary code or a listed bundled code\<close>
  "spec_matching claims bundle =
     filter (\<lambda>c. cpt_code c = primary_code bundle \<or> cpt_code c \<in> set (bundled_codes bundle)) claims"

definition spec_alert :: "ClaimItem list \<Rightarrow> CPTDatabase \<Rightarrow> NCCIBundle \<Rightarrow> UnbundlingAlert" where
  \<comment> \<open>the alert of the specification, with the fallback as the code has it: the replacement
      cost is the average cost of the replacement code when the database has one that is
      neither zero nor NaN, and 60% of the total billed otherwise\<close>
  "spec_alert claims cptDb bundle =
     (let billedSum = jsum (map billed_amount_inr (spec_matching claims bundle));
          cost = (case codes cptDb (correct_single_code bundle) of
                    None \<Rightarrow> jmul billedSum (num 0.6)
                  | Some info \<Rightarrow>
                      if avg_cost_inr info = Fin 0 \<or> avg_cost_inr info = NaN
                      then jmul billedSum (num 0.6) else avg_cost_inr info)
      in \<lparr>involved_claims = map claim_id (spec_matching claims bundle),
          involved_codes =
            primary_code bundle
            # filter (\<lambda>code. code \<in> set (map cpt_code claims)) (bundled_codes bundle),
          total_billed = billedSum,
          correct_code = correct_single_code bundle,
          correct_cost = cost,
          potential_savings = jsub billedSum cost\<rparr>)"

definition zeroCostDb :: CPTDatabase where
  \<comment> \<open>the replacement code is known, with the average cost 0\<close>
  "zeroCostDb =
     \<lparr>codes = map_of
        [(''23650'', \<lparr>severity = 3, avg_cost_inr = Fin 100, category = ''Surgery''\<rparr>),
         (''29240'', \<lparr>severity = 1, avg_cost_inr = Fin 100, category = ''Surgery''\<rparr>),
         (''23655'', \<lparr>severity = 3, avg_cost_inr = Fin 0, category = ''Surgery''\<rparr>)],
      ncci_bundles =
        [\<lparr>primary_code = ''23650'', bundled_codes = [''29240''], correct_single_code = ''23655''\<rparr>],
      severity_keywords = Map.empty\<rparr>"

definition erClaim :: ClaimItem where
  \<comment> \<open>the example of the specification: an emergency visit of the highest level with
      routine notes\<close>
  "erClaim =
     \<lparr>claim_id = ''CLM-1'', patient_name = ''A'', date = ''2026-01-01'', time = ''10:00'',
      department = ''Emergency'', cpt_code = ''99285'',
      cpt_description = ''Emergency department visit, high severity'',
      billed_amount_inr = Fin 12000,
      recorded_clinical_notes = ''stable, mild discomfort, discharged'',
      location_lat = None, location_lng = None\<rparr>"

definition consultationClaim :: ClaimItem where
  \<comment> \<open>notes that deny the service, for a description outside every semantic group\<close>
  "consultationClaim =
     \<lparr>claim_id = ''CLM-1'', patient_name = ''A'', date = ''2026-01-01'', time = ''10:00'',
      department = ''General'', cpt_code = ''99499'', cpt_description = ''Consultation'',
      billed_amount_inr = Fin 500, recorded_clinical_notes = ''No record found'',
      location_lat = None, location_lng = None\<rparr>"

section \<open>Properties\<close>

subsection \<open>Rounding to binary64\<close>

lemmas fl64_eval = num_def fl64_def exponent.simps roundEven_def Let_def signed_inf_def

text \<open>
  The sum \<open>0.35 + 0.1\<close> is a value below \<open>0.45\<close>: with the RISK contributions 0.35 and
  0.1 and two SAFE contributions of 0.05 the raw score is below 53.5 and the score is 53.
\<close>

lemma rounded_sum: "jadd (num 0.35) (num 0.1) = num 0.44999999999999996"
  by (simp add: fl64_eval)

lemma rounded_score:
  "riskScore
     [\<lparr>factor_name = ''Severity Mismatch'', contribution = num 0.35, direction = RISK\<rparr>,
      \<lparr>factor_name = ''Time Overlaps'', contribution = num 0.1, direction = RISK\<rparr>,
      \<lparr>factor_name = ''Timeline Clean'', contribution = num (- 0.05), direction = SAFE\<rparr>,
      \<lparr>factor_name = ''Cost Normal'', contribution = num (- 0.05), direction = SAFE\<rparr>]
   = Fin 53"
  by (simp add: riskScore_def rawScore_def riskContribution_def safeContribution_def jsum_def
      jsub_def jmin_def jmax_def fl64_eval)

lemma exponent_le: "0 < x \<Longrightarrow> 2 powi exponent x \<le> x"
proof (induction x rule: exponent.induct)
  case (1 x)
  show ?case
  proof (cases "2 \<le> x")
    case True
    with 1 have "2 powi exponent (x / 2) \<le> x / 2" by simp
    moreover have "exponent x = exponent (x / 2) + 1"
      using True 1 by (subst exponent.simps) simp
    ultimately show ?thesis
      by (simp add: power_int_add)
  next
    case False
    show ?thesis
    proof (cases "x < 1")
      case True
      with 1 False have "2 powi exponent (x * 2) \<le> x * 2" by simp
      moreover have "exponent x = exponent (x * 2) - 1"
        using True False 1 by (subst exponent.simps) simp
      ultimately show ?thesis
        by (simp add: power_int_diff)
    next
      case False
      with \<open>\<not> 2 \<le> x\<close> 1 have "exponent x = 0"
        by (subst exponent.simps) simp
      with False show ?thesis by simp
    qed
  qed
qed

lemma roundEven_ge: "\<lfloor>m\<rfloor> \<le> roundEven m"
  by (simp add: roundEven_def Let_def)

lemma fl64_positive:
  assumes "2 powi (- 1022) \<le> x"
  shows "jlt (Fin 0) (fl64 x)"
proof -
  have x: "0 < x"
    using assms zero_less_power_int [of "2::real" "- 1022"] by linarith
  define e where "e = max (exponent \<bar>x\<bar>) (- 1022)"
  define r where "r = roundEven (\<bar>x\<bar> / 2 powi (e - 52))"
  have "2 powi e \<le> x"
    using exponent_le [OF x] assms x by (auto simp: e_def max_def)
  moreover have "(2::real) powi e = 2 powi (e - 52) * 2 powi 52"
    by (simp add: power_int_diff)
  ultimately have "2 powi 52 \<le> x / 2 powi (e - 52)"
    by (simp add: pos_le_divide_eq mult.commute)
  moreover have "(1::real) \<le> 2 powi 52" by simp
  ultimately have "1 \<le> x / 2 powi (e - 52)" by linarith
  then have "1 \<le> \<lfloor>\<bar>x\<bar> / 2 powi (e - 52)\<rfloor>"
    using x by simp
  then have r: "1 \<le> r"
    unfolding r_def using roundEven_ge [of "\<bar>x\<bar> / 2 powi (e - 52)"] by (rule order_trans)
  then have "0 < sgn x * of_int r * 2 powi (e - 52)"
    using x by simp
  then show ?thesis
    using x unfolding fl64_def Let_def e_def [symmetric] r_def [symmetric] signed_inf_def
    by auto
qed

subsection \<open>Score and bands\<close>

lemma jmul_commute: "jmul a b = jmul b a"
  by (cases a; cases b) (auto simp: mult.commute)

lemma floor_clamp:
  "\<lfloor>max 0 (min 100 (x::real)) + 1 / 2\<rfloor> = max 0 (min 100 \<lfloor>x + 1 / 2\<rfloor>)"
proof -
  consider "x \<le> 0" | "100 \<le> x" | "0 < x" "x < 100" by linarith
  then show ?thesis
  proof cases
    case 1
    then have l: "max 0 (min 100 x) = 0" by simp
    from 1 have "\<lfloor>x + 1 / 2\<rfloor> \<le> 0" by linarith
    then have r: "max 0 (min 100 \<lfloor>x + 1 / 2\<rfloor>) = 0" by simp
    have "\<lfloor>(0::real) + 1 / 2\<rfloor> = 0" by linarith
    with l r show ?thesis by simp
  next
    case 2
    then have l: "max 0 (min 100 x) = 100" by simp
    from 2 have "100 \<le> \<lfloor>x + 1 / 2\<rfloor>" by linarith
    then have r: "max 0 (min 100 \<lfloor>x + 1 / 2\<rfloor>) = 100" by simp
    have "\<lfloor>(100::real) + 1 / 2\<rfloor> = 100" by linarith
    with l r show ?thesis by simp
  next
    case 3
    then have l: "max 0 (min 100 x) = x" by simp
    from 3 have "0 \<le> \<lfloor>x + 1 / 2\<rfloor>" "\<lfloor>x + 1 / 2\<rfloor> \<le> 100" by linarith+
    then have r: "max 0 (min 100 \<lfloor>x + 1 / 2\<rfloor>) = \<lfloor>x + 1 / 2\<rfloor>" by simp
    from l r show ?thesis by simp
  qed
qed

lemma clamp_Fin: "jmax (Fin 0) (jmin (Fin 100) (Fin r)) = Fin (max 0 (min 100 r))"
  by (auto simp: jmax_def jmin_def max_def min_def)

lemma jround_clamp:
  "jround (jmax (Fin 0) (jmin (Fin 100) x)) = jmax (Fin 0) (jmin (Fin 100) (jround x))"
proof (cases x)
  case (Fin r)
  have "jmax (Fin 0) (jmin (Fin 100) (Fin (of_int \<lfloor>r + 1 / 2\<rfloor>)))
      = Fin (of_int (max 0 (min 100 \<lfloor>r + 1 / 2\<rfloor>)))"
    by (auto simp: jmax_def jmin_def max_def min_def)
  then show ?thesis using Fin floor_clamp[of r] by (simp add: clamp_Fin)
qed (simp_all add: jmax_def jmin_def)

lemma riskScore_spec: "riskScore fs = spec_score fs"
  by (simp add: riskScore_def spec_score_def spec_clamp_def rawScore_def jround_clamp
      jmul_commute riskContribution_def safeContribution_def)

lemma band_spec: "(riskLevel s, recommendationOf s) = spec_band s"
  by (simp add: riskLevel_def recommendationOf_def spec_band_def)

lemma xai_analyze:
  "xai (analyzeFullClaim rt claims cptDb)
     = Promise (runXAIAdvisor (runCrossModalAudit claims cptDb)
         (runTimelineDetective rt claims cptDb) (runGhostUnbundleHunter claims cptDb) claims cptDb)"
  by (simp add: analyzeFullClaim_def runXAIAdvisorAsync_def Let_def)

text \<open>
  C1. The score that \<open>runXAIAdvisor\<close> resolves to is the clamped, rounded weighted sum of
  the specification over the factors that \<open>calculateFactors\<close> returns, in binary64
  arithmetic on both sides, and level and recommendation follow from the score by the four
  bands. So for the promise that a run of the pipeline stores in \<open>xai\<close>: it resolves to
  the score of the formula over its own factors.
\<close>

theorem risk_score_formula:
  "risk_score (runXAIAdvisor crossModal timelineRes ghostUnbundle claims cptDb)
     = spec_score (calculateFactors crossModal timelineRes ghostUnbundle claims cptDb)
   \<and> (xai_risk_level (runXAIAdvisor crossModal timelineRes ghostUnbundle claims cptDb),
       recommendation (runXAIAdvisor crossModal timelineRes ghostUnbundle claims cptDb))
     = spec_band (risk_score (runXAIAdvisor crossModal timelineRes ghostUnbundle claims cptDb))
   \<and> risk_score (resolved (xai (analyzeFullClaim rt claims cptDb)))
     = spec_score (factors (resolved (xai (analyzeFullClaim rt claims cptDb))))
   \<and> (xai_risk_level (resolved (xai (analyzeFullClaim rt claims cptDb))),
       recommendation (resolved (xai (analyzeFullClaim rt claims cptDb))))
     = spec_band (risk_score (resolved (xai (analyzeFullClaim rt claims cptDb))))"
proof -
  have advisor: "risk_score (runXAIAdvisor cm tr gu cs db) = spec_score (calculateFactors cm tr gu cs db)
      \<and> factors (runXAIAdvisor cm tr gu cs db) = calculateFactors cm tr gu cs db
      \<and> (xai_risk_level (runXAIAdvisor cm tr gu cs db), recommendation (runXAIAdvisor cm tr gu cs db))
        = spec_band (risk_score (runXAIAdvisor cm tr gu cs db))" for cm tr gu cs db
    by (simp add: runXAIAdvisor_def Let_def riskScore_spec band_spec)
  with xai_analyze [of rt claims cptDb] show ?thesis by simp
qed

subsection \<open>A batch whose replacement code costs more than was billed\<close>

lemma unbundled_cross_modal:
  "runCrossModalAudit unbundledBatch testDb
     = \<lparr>mismatches = [], cm_total_claims = 2, cm_flagged_count = 0, cm_risk_level = LOW\<rparr>"
  by code_simp

lemma unbundled_ghosts: "detectGhostServices unbundledBatch testDb = []"
  by code_simp

lemma unbundled_involved:
  "involvedClaimsOf unbundledBatch
     \<lparr>primary_code = ''23650'', bundled_codes = [''29240''], correct_single_code = ''23655''\<rparr>
   = unbundledBatch"
  "involvedCodesOf unbundledBatch
     \<lparr>primary_code = ''23650'', bundled_codes = [''29240''], correct_single_code = ''23655''\<rparr>
   = [''23650'', ''29240'']"
  "presentBundled unbundledBatch
     \<lparr>primary_code = ''23650'', bundled_codes = [''29240''], correct_single_code = ''23655''\<rparr>
   = [''29240'']"
  "''23650'' \<in> billedCodes unbundledBatch"
  by code_simp+

lemma unbundled_alerts: "detectUnbundling unbundledBatch testDb = [unbundledAlert]"
proof -
  have "jsum (map billed_amount_inr unbundledBatch) = Fin 200"
    by (simp add: unbundledBatch_def jsum_def fl64_eval)
  moreover have "map claim_id unbundledBatch = [''CLM-1'', ''CLM-2'']"
    by (simp add: unbundledBatch_def)
  ultimately show ?thesis
    by (simp add: detectUnbundling_def testDb_def alertsOfBundle_def unbundled_involved
        correctCostOf_def truthy_def jsub_def unbundledAlert_def fl64_eval)
qed

lemma unbundled_ghost_unbundle:
  "runGhostUnbundleHunter unbundledBatch testDb
     = \<lparr>ghost_services = [], unbundling_alerts = [unbundledAlert],
        total_potential_savings = Fin (- 4800), gu_flagged_count = 1, gu_risk_level = MEDIUM\<rparr>"
  by (simp add: runGhostUnbundleHunter_def unbundled_ghosts unbundled_alerts Let_def jsum_def
      unbundledAlert_def countLevel_def fl64_eval)

lemma unbundled_events:
  "claimsToEvents testRuntime unbundledBatch testDb = [orthoEvent ''CLM-1'', orthoEvent ''CLM-2'']"
  by (simp add: claimsToEvents_def claimToEvent_def unbundledBatch_def testRuntime_def testDb_def
      parseDateTime_def nonblank_def is_space_def durationMinutes_def DEFAULT_DURATIONS_def
      orthoEvent_def)

lemma unbundled_timeline:
  "runTimelineDetective testRuntime unbundledBatch testDb
     = \<lparr>events = [orthoEvent ''CLM-1'', orthoEvent ''CLM-2''], overlaps = [orthoOverlap],
        tl_flagged_count = 1, tl_risk_level = MEDIUM\<rparr>"
  by (simp add: runTimelineDetective_def unbundled_events Let_def checkPair_def
      intervalsOverlap_def orthoEvent_def orthoOverlap_def timelineLevel_def jgt_def fl64_eval)

lemma unbundled_docs: "missingDocs unbundledBatch = 2"
  by code_simp

lemma unbundled_totals:
  "totalBilled unbundledBatch = Fin 200" "avgExpected unbundledBatch testDb = Fin 200"
  by (simp_all add: totalBilled_def avgExpected_def unbundledBatch_def testDb_def jsum_def
      truthy_def fl64_eval)

lemma unbundled_factors:
  "calculateFactors (runCrossModalAudit unbundledBatch testDb)
     (runTimelineDetective testRuntime unbundledBatch testDb)
     (runGhostUnbundleHunter unbundledBatch testDb) unbundledBatch testDb
   = [sevMatch, timeOverlaps, codeUnbundling, costNormal, poorDocumentation]"
  unfolding unbundled_cross_modal unbundled_timeline unbundled_ghost_unbundle
  by (simp add: calculateFactors_def severityFactor_def timelineFactor_def ghostFactor_def
      unbundlingFactor_def costFactor_def documentationFactor_def unbundled_docs
      unbundled_totals orthoOverlap_def jgt_def jmin_def jsub_def sevMatch_def timeOverlaps_def
      codeUnbundling_def costNormal_def poorDocumentation_def fl64_eval)

lemma unbundled_scores:
  "riskScore [sevMatch, timeOverlaps, codeUnbundling, costNormal, poorDocumentation] = Fin 0"
  "riskScore [sevMatch, timeOverlaps, costNormal, poorDocumentation] = Fin 34"
  by (simp_all add: riskScore_def rawScore_def riskContribution_def safeContribution_def jsum_def
      jsub_def jmin_def jmax_def sevMatch_def timeOverlaps_def codeUnbundling_def costNormal_def
      poorDocumentation_def fl64_eval)

lemma unbundled_result:
  "factors (resolved (xai (analyzeFullClaim testRuntime unbundledBatch testDb)))
     = [sevMatch, timeOverlaps, codeUnbundling, costNormal, poorDocumentation]"
  "risk_score (resolved (xai (analyzeFullClaim testRuntime unbundledBatch testDb))) = Fin 0"
  by (simp_all add: xai_analyze runXAIAdvisor_def Let_def unbundled_factors unbundled_scores)

theorem risk_score_formula_witness:
  "spec_score (factors (resolved (xai (analyzeFullClaim testRuntime unbundledBatch testDb))))
     = Fin 0
   \<and> spec_band (risk_score (resolved (xai (analyzeFullClaim testRuntime unbundledBatch testDb))))
     = (LOW, APPROVE)"
proof -
  have "spec_band (Fin 0) = (LOW, APPROVE)"
    by (simp add: spec_band_def jge_def)
  with risk_score_formula [of _ _ _ unbundledBatch testDb testRuntime] show ?thesis
    by (simp add: unbundled_result(2))
qed

text \<open>
  C7. The batch bills 100 twice for two codes of a bundling rule whose replacement code
  costs 5000 on average: the savings are negative, and \<open>calculateFactors\<close> returns the
  RISK factor Code Unbundling with the contribution \<open>0.08 + (-4800 / 200) * 0.2\<close>, below
  \<open>-4.72\<close>. With this RISK factor the score of the factors is 0; the score of the same
  factors without it is 34.
\<close>

theorem negative_risk_factor_lowers_score:
  "factors (resolved (xai (analyzeFullClaim testRuntime unbundledBatch testDb)))
     = [sevMatch, timeOverlaps, codeUnbundling, costNormal, poorDocumentation]
   \<and> direction codeUnbundling = RISK
   \<and> jlt (contribution codeUnbundling) (Fin 0)
   \<and> riskScore [sevMatch, timeOverlaps, costNormal, poorDocumentation] = Fin 34
   \<and> riskScore [sevMatch, timeOverlaps, codeUnbundling, costNormal, poorDocumentation] = Fin 0
   \<and> \<not> jle (riskScore [sevMatch, timeOverlaps, costNormal, poorDocumentation])
            (riskScore [sevMatch, timeOverlaps, codeUnbundling, costNormal, poorDocumentation])"
proof -
  have d: "direction codeUnbundling = RISK" "jlt (contribution codeUnbundling) (Fin 0)"
    by (simp_all add: codeUnbundling_def fl64_eval)
  from unbundled_result(1) unbundled_scores d show ?thesis by simp
qed

subsection \<open>A score that is not a number\<close>

lemma zero_coerce: "coerceClaim 0 zeroBilledRaw = zeroBilledClaim"
  by code_simp

lemma zero_cross_modal:
  "runCrossModalAudit [zeroBilledClaim] testDb
     = \<lparr>mismatches = [zeroMismatch], cm_total_claims = 1, cm_flagged_count = 1,
        cm_risk_level = MEDIUM\<rparr>"
  by code_simp

lemma zero_similarity:
  "calculateSimilarity (cpt_description zeroBilledClaim) (recorded_clinical_notes zeroBilledClaim)
     = Fin 0"
  "nonblank (recorded_clinical_notes zeroBilledClaim)"
  by code_simp+

lemma zero_fields:
  "claim_id zeroBilledClaim = ''CLM-1''" "cpt_code zeroBilledClaim = ''70553''"
  "billed_amount_inr zeroBilledClaim = Fin 0"
  by (simp_all add: zeroBilledClaim_def)

lemma zero_ghosts: "detectGhostServices [zeroBilledClaim] testDb = [zeroGhost]"
proof -
  have "ghostOfClaim testDb bas da 0 zeroBilledClaim = [zeroGhost]" for bas da
    by (simp add: ghostOfClaim_def zero_similarity zeroGhost_def zero_fields fl64_eval)
  then show ?thesis
    by (simp add: detectGhostServices_def Let_def)
qed

lemma zero_alerts: "detectUnbundling [zeroBilledClaim] testDb = []"
  by (simp add: detectUnbundling_def testDb_def alertsOfBundle_def billedCodes_def
      zeroBilledClaim_def)

lemma zero_ghost_unbundle:
  "runGhostUnbundleHunter [zeroBilledClaim] testDb
     = \<lparr>ghost_services = [zeroGhost], unbundling_alerts = [], total_potential_savings = Fin 0,
        gu_flagged_count = 1, gu_risk_level = MEDIUM\<rparr>"
  by (simp add: runGhostUnbundleHunter_def zero_ghosts zero_alerts Let_def jsum_def
      zeroGhost_def countLevel_def fl64_eval)

lemma single_timeline:
  "runTimelineDetective rt [c] cptDb
     = \<lparr>events = [claimToEvent rt cptDb c], overlaps = [], tl_flagged_count = 0,
        tl_risk_level = LOW\<rparr>"
  by (simp add: runTimelineDetective_def claimsToEvents_def timelineLevel_def)

lemma zero_phantom_factor:
  "ghostFactor (runGhostUnbundleHunter [zeroBilledClaim] testDb) [zeroBilledClaim]
   = [\<lparr>factor_name = ''Phantom Charges'', contribution = NaN, direction = RISK\<rparr>]"
  unfolding zero_ghost_unbundle
  by (simp add: ghostFactor_def totalBilled_def jsum_def zeroGhost_def zeroBilledClaim_def
      jmin_def fl64_eval)

lemma jsum_NaN: "NaN \<in> set xs \<Longrightarrow> jsum xs = NaN"
proof -
  have a: "foldl jadd NaN ys = NaN" for ys
    by (induction ys) simp_all
  have "NaN \<in> set xs \<Longrightarrow> foldl jadd acc xs = NaN" for acc
  proof (induction xs arbitrary: acc)
    case Nil
    then show ?case by simp
  next
    case (Cons x xs)
    show ?case
    proof (cases "x = NaN")
      case True
      then have "jadd acc x = NaN" by (cases acc) simp_all
      then show ?thesis by (simp add: a)
    next
      case False
      with Cons show ?thesis by simp
    qed
  qed
  then show "NaN \<in> set xs \<Longrightarrow> jsum xs = NaN"
    by (simp add: jsum_def)
qed

lemma score_NaN:
  assumes "\<lparr>factor_name = n, contribution = NaN, direction = RISK\<rparr> \<in> set fs"
  shows "riskScore fs = NaN"
proof -
  have "NaN \<in> set (map contribution (filter (\<lambda>f. direction f = RISK) fs))"
    using assms by force
  then have "riskContribution fs = NaN"
    by (simp only: riskContribution_def jsum_NaN)
  then show ?thesis
    by (simp add: riskScore_def rawScore_def jsub_def jmin_def jmax_def)
qed

text \<open>
  C6. A batch of one claim without billed amount, whose notes deny the service: the ghost
  factor divides by the total billed, \<open>0 / 0\<close>, its contribution is NaN, and the score
  that \<open>runXAIAdvisor\<close> resolves to is NaN. The route accepts the request that carries
  this claim.
\<close>

theorem risk_score_not_a_number:
  "risk_score (runXAIAdvisor (runCrossModalAudit [zeroBilledClaim] testDb)
      (runTimelineDetective testRuntime [zeroBilledClaim] testDb)
      (runGhostUnbundleHunter [zeroBilledClaim] testDb) [zeroBilledClaim] testDb) = NaN
   \<and> risk_score (resolved (xai (analyzeFullClaim testRuntime [zeroBilledClaim] testDb))) = NaN
   \<and> POST testRuntime testDb (Body (Some [Some zeroBilledRaw]))
     = Inr (toJSON (analyzeFullClaim testRuntime [zeroBilledClaim] testDb))"
proof -
  have "\<lparr>factor_name = ''Phantom Charges'', contribution = NaN, direction = RISK\<rparr>
      \<in> set (calculateFactors (runCrossModalAudit [zeroBilledClaim] testDb)
          (runTimelineDetective testRuntime [zeroBilledClaim] testDb)
          (runGhostUnbundleHunter [zeroBilledClaim] testDb) [zeroBilledClaim] testDb)"
    by (simp add: calculateFactors_def zero_phantom_factor)
  then have a: "risk_score (runXAIAdvisor (runCrossModalAudit [zeroBilledClaim] testDb)
      (runTimelineDetective testRuntime [zeroBilledClaim] testDb)
      (runGhostUnbundleHunter [zeroBilledClaim] testDb) [zeroBilledClaim] testDb) = NaN"
    by (simp add: runXAIAdvisor_def Let_def score_NaN)
  have "POST testRuntime testDb (Body (Some [Some zeroBilledRaw]))
      = Inr (toJSON (analyzeFullClaim testRuntime [zeroBilledClaim] testDb))"
    by (simp add: POST_def zero_coerce)
  with a show ?thesis
    by (simp add: xai_analyze)
qed

text \<open>Whenever the score is a number, it is in the range.\<close>

lemma risk_score_range:
  "riskScore fs \<noteq> NaN \<Longrightarrow> jle (Fin 0) (riskScore fs) \<and> jle (riskScore fs) (Fin 100)"
proof (cases "rawScore fs")
  case (Fin r)
  have "(0::int) \<le> \<lfloor>max 0 (min 100 r) + 1 / 2\<rfloor>"
    by (simp add: max_def min_def)
  moreover have "\<lfloor>max 0 (min 100 r) + 1 / 2\<rfloor> \<le> 100"
  proof -
    have "max 0 (min 100 r) + 1 / 2 < 101" by (simp add: max_def min_def)
    then show ?thesis by linarith
  qed
  ultimately show ?thesis
    using Fin by (simp add: riskScore_def clamp_Fin)
qed (simp_all add: riskScore_def jmin_def jmax_def)

subsection \<open>The empty batch\<close>

lemma detectUnbundling_Nil_aux:
  "foldl (\<lambda>alerts bundle. alerts @ alertsOfBundle [] cptDb bundle) acc bs = acc"
  by (induction bs arbitrary: acc) (simp_all add: alertsOfBundle_def billedCodes_def)

lemma empty_cross_modal:
  "runCrossModalAudit [] cptDb
     = \<lparr>mismatches = [], cm_total_claims = 0, cm_flagged_count = 0, cm_risk_level = LOW\<rparr>"
  by (simp add: runCrossModalAudit_def countLevel_def)

lemma empty_timeline:
  "runTimelineDetective rt [] cptDb
     = \<lparr>events = [], overlaps = [], tl_flagged_count = 0, tl_risk_level = LOW\<rparr>"
  by (simp add: runTimelineDetective_def claimsToEvents_def timelineLevel_def)

lemma empty_ghost_unbundle:
  "runGhostUnbundleHunter [] cptDb
     = \<lparr>ghost_services = [], unbundling_alerts = [], total_potential_savings = Fin 0,
        gu_flagged_count = 0, gu_risk_level = LOW\<rparr>"
  by (simp add: runGhostUnbundleHunter_def detectGhostServices_def detectUnbundling_def
      detectUnbundling_Nil_aux jsum_def countLevel_def fl64_def)

lemma empty_factors:
  "calculateFactors
     \<lparr>mismatches = [], cm_total_claims = 0, cm_flagged_count = 0, cm_risk_level = LOW\<rparr>
     \<lparr>events = [], overlaps = [], tl_flagged_count = 0, tl_risk_level = LOW\<rparr>
     \<lparr>ghost_services = [], unbundling_alerts = [], total_potential_savings = Fin 0,
        gu_flagged_count = 0, gu_risk_level = LOW\<rparr> [] cptDb
   = [sevMatch, timelineClean, documentationComplete]"
  by (simp add: calculateFactors_def severityFactor_def timelineFactor_def ghostFactor_def
      unbundlingFactor_def costFactor_def documentationFactor_def missingDocs_def
      avgExpected_def jsum_def jgt_def sevMatch_def timelineClean_def
      documentationComplete_def)

lemma empty_score: "riskScore [sevMatch, timelineClean, documentationComplete] = Fin 7"
  by (simp add: riskScore_def rawScore_def riskContribution_def safeContribution_def jsum_def
      jsub_def jmin_def jmax_def sevMatch_def timelineClean_def documentationComplete_def
      fl64_eval)

text \<open>
  C8, as amended. \<open>analyzeFullClaim\<close> on the empty batch returns a result with no claims
  and nothing billed, and \<open>runXAIAdvisor\<close> on the findings of the empty batch resolves to
  the score 7, LOW and APPROVE. The route does not run the pipeline on an empty \<open>claims\<close>
  array and answers with the status 400.
\<close>

theorem empty_batch:
  "total_claims (analyzeFullClaim rt [] cptDb) = 0
   \<and> fa_total_billed (analyzeFullClaim rt [] cptDb) = Fin 0
   \<and> risk_score (runXAIAdvisor (runCrossModalAudit [] cptDb) (runTimelineDetective rt [] cptDb)
        (runGhostUnbundleHunter [] cptDb) [] cptDb) = Fin 7
   \<and> xai_risk_level (runXAIAdvisor (runCrossModalAudit [] cptDb)
        (runTimelineDetective rt [] cptDb) (runGhostUnbundleHunter [] cptDb) [] cptDb) = LOW
   \<and> recommendation (runXAIAdvisor (runCrossModalAudit [] cptDb)
        (runTimelineDetective rt [] cptDb) (runGhostUnbundleHunter [] cptDb) [] cptDb) = APPROVE
   \<and> POST rt cptDb (Body (Some [])) = Inl BadRequest400"
proof -
  let ?x = "runXAIAdvisor (runCrossModalAudit [] cptDb) (runTimelineDetective rt [] cptDb)
        (runGhostUnbundleHunter [] cptDb) [] cptDb"
  have s: "risk_score ?x = Fin 7"
    by (simp add: empty_cross_modal empty_timeline empty_ghost_unbundle runXAIAdvisor_def
        empty_factors empty_score Let_def)
  have l: "xai_risk_level ?x = LOW"
    by (simp add: empty_cross_modal empty_timeline empty_ghost_unbundle runXAIAdvisor_def
        empty_factors empty_score Let_def riskLevel_def jge_def)
  have r: "recommendation ?x = APPROVE"
    by (simp add: empty_cross_modal empty_timeline empty_ghost_unbundle runXAIAdvisor_def
        empty_factors empty_score Let_def recommendationOf_def jge_def)
  have t: "total_claims (analyzeFullClaim rt [] cptDb) = 0"
    "fa_total_billed (analyzeFullClaim rt [] cptDb) = Fin 0"
    by (simp_all add: analyzeFullClaim_def Let_def totalBilled_def jsum_def)
  have p: "POST rt cptDb (Body (Some [])) = Inl BadRequest400"
    by (simp add: POST_def)
  from s l r t p show ?thesis by simp
qed

theorem empty_batch_rejected_by_route:
  "POST testRuntime testDb (Body (Some [])) = Inl BadRequest400"
  by (simp add: POST_def)

subsection \<open>Great-circle distance at concrete points\<close>

lemma far_distance:
  "haversineDistance testRuntime (Fin 12) (Fin 77) (Fin 13) (Fin 77) = farDistance"
  by (simp add: haversineDistance_def MATH_PI_def testRuntime_def tabulated_def jsub_def
      farDistance_def fl64_eval)

lemma far_is_far: "jgt farDistance (Fin 5)"
  by (simp add: farDistance_def jgt_def fl64_eval)

lemma far_speed: "jdiv farDistance (Fin (1 / 2)) = farSpeed"
  by (simp add: farDistance_def farSpeed_def fl64_eval)

lemma same_point:
  "haversineDistance testRuntime (Fin 12) (Fin 77) (Fin 12) (Fin 77) = Fin 0"
  by (simp add: haversineDistance_def MATH_PI_def testRuntime_def tabulated_def jsub_def
      fl64_eval)

subsection \<open>Elapsed time and overlap\<close>

lemma timeDiffHours_zero: "start_time a = start_time b \<Longrightarrow> timeDiffHours a b = Fin 0"
  by (simp add: timeDiffHours_def fl64_def)

lemma timeDiffHours_positive:
  assumes "start_time a \<noteq> start_time b"
  shows "jgt (timeDiffHours a b) (Fin 0)"
proof -
  let ?n = "\<bar>start_time b - start_time a\<bar>"
  from assms have "1 \<le> ?n" by linarith
  then have "(1::real) \<le> of_int ?n" by linarith
  then have "(1::real) / 3600000 \<le> of_int ?n / 3600000"
    by (simp add: divide_right_mono)
  moreover have "(2::real) powi (- 1022) \<le> 1 / 3600000"
  proof -
    have "(2::real) powi (- 1022) \<le> 2 powi (- 22)"
      by (rule power_int_increasing) simp_all
    also have "\<dots> \<le> 1 / 3600000"
      by (simp add: power_int_def power_divide)
    finally show ?thesis .
  qed
  ultimately have "(2::real) powi (- 1022) \<le> of_int ?n / 3600000" by linarith
  then have "jlt (Fin 0) (fl64 (of_int ?n / 3600000))" by (rule fl64_positive)
  then show ?thesis by (simp add: timeDiffHours_def jgt_def)
qed

lemma half_hour:
  "timeDiffHours (geoEvent c 1767261600000 d l) (geoEvent c' 1767263400000 d' l') = Fin (1 / 2)"
  by (simp add: timeDiffHours_def geoEvent_def fl64_eval)

lemma geo_overlap:
  "intervalsOverlap 1767261600000 1767268800000 1767263400000 1767270600000 = Fin 90"
  by (simp add: intervalsOverlap_def fl64_eval)

subsection \<open>The scan over the pairs\<close>

lemma checkPair_events:
  "ov \<in> set (checkPair rt a b) \<Longrightarrow> event_a ov = a \<and> event_b ov = b"
  by (auto simp: checkPair_def Let_def split: if_splits)

lemma teleportation_only_located:
  "ov \<in> set (checkPair rt a b) \<Longrightarrow> ov_type ov = TELEPORTATION \<Longrightarrow>
   ev_department a \<noteq> ev_department b
   \<and> hasCoord (ev_location_lat a) \<and> hasCoord (ev_location_lng a)
   \<and> hasCoord (ev_location_lat b) \<and> hasCoord (ev_location_lng b)"
  by (auto simp: checkPair_def Let_def split: if_splits)

lemma scanPairs_member:
  "ov \<in> set (scanPairs rt evs) \<Longrightarrow> ov \<in> set (checkPair rt (event_a ov) (event_b ov))"
proof (induction evs)
  case Nil
  then show ?case by simp
next
  case (Cons a rest)
  from Cons.prems consider b where "b \<in> set rest" "ov \<in> set (checkPair rt a b)"
    | "ov \<in> set (scanPairs rt rest)"
    by auto
  then show ?case
  proof cases
    case 1
    with checkPair_events [of ov rt a b] show ?thesis by simp
  next
    case 2
    with Cons.IH show ?thesis by simp
  qed
qed

lemma scanPairs_contains:
  "i < j \<Longrightarrow> j < length evs \<Longrightarrow>
   set (checkPair rt (evs ! i) (evs ! j)) \<subseteq> set (scanPairs rt evs)"
proof (induction evs arbitrary: i j)
  case Nil
  then show ?case by simp
next
  case (Cons a rest)
  show ?case
  proof (cases i)
    case 0
    with Cons.prems obtain k where "j = Suc k" "k < length rest"
      by (cases j) auto
    then have "rest ! k \<in> set rest" by simp
    with 0 \<open>j = Suc k\<close> show ?thesis by (auto intro: bexI [of _ "rest ! k"])
  next
    case (Suc i')
    with Cons.prems obtain k where k: "j = Suc k" "i' < k" "k < length rest"
      by (cases j) auto
    from Cons.IH [OF k(2) k(3)] Suc k show ?thesis by auto
  qed
qed

lemma geo_event:
  "t \<in> {''10:00'', ''10:30''} \<Longrightarrow> code \<in> {''23650'', ''29240''} \<Longrightarrow>
   claimToEvent testRuntime testDb (geoClaim cid t dept code lat)
     = geoEvent cid (if t = ''10:00'' then 1767261600000 else 1767263400000) dept lat"
  by (auto simp: claimToEvent_def geoClaim_def geoEvent_def parseDateTime_def
      nonblank_def is_space_def testRuntime_def testDb_def durationMinutes_def
      DEFAULT_DURATIONS_def)

lemma same_department_events:
  "claimsToEvents testRuntime sameDepartmentBatch testDb
     = [geoEvent ''CLM-1'' 1767261600000 ''Ortho'' 12,
        geoEvent ''CLM-2'' 1767263400000 ''Ortho'' 13]"
  by (simp add: claimsToEvents_def sameDepartmentBatch_def geo_event)

lemma overlaps_run:
  "overlaps (runTimelineDetective rt claims cptDb)
     = scanPairs rt (claimsToEvents rt claims cptDb)"
  by (simp add: runTimelineDetective_def Let_def)

text \<open>
  When the computed distance is not a number, the comparison \<open>distance > 5\<close> is false and
  the pair is pushed as an OVERLAP.
\<close>

lemma nan_distance_is_overlap:
  assumes "jgt (intervalsOverlap (start_time a) (end_time a) (start_time b) (end_time b)) (Fin 0)"
    and "ev_department a \<noteq> ev_department b"
    and "hasCoord (ev_location_lat a)" and "hasCoord (ev_location_lng a)"
    and "hasCoord (ev_location_lat b)" and "hasCoord (ev_location_lng b)"
    and "haversineDistance rt (coord (ev_location_lat a)) (coord (ev_location_lng a))
           (coord (ev_location_lat b)) (coord (ev_location_lng b)) = NaN"
  shows "map ov_type (checkPair rt a b) = [OVERLAP]"
  using assms by (simp add: checkPair_def Let_def jgt_def)

text \<open>
  C2, as amended. Take two claims of a batch, the first before the second, whose intervals
  overlap and whose four coordinates are present and not zero, and the distance that
  \<open>haversineDistance\<close> computes between them. If their departments differ and the
  computed distance is more than 5 km, the run reports the pair as TELEPORTATION, with the
  computed distance over the hours between the two starts as required speed, infinite
  when the starts coincide. If the computed distance is at most 5 km, the run reports the
  pair and no overlap of the run between these two events is a TELEPORTATION. Every
  TELEPORTATION of a run is between events of different departments with four
  coordinates that are present and not zero.
\<close>

theorem teleportation_classification:
  fixes rt :: runtime and a b :: TimelineEvent and d :: jsnum
  defines "d \<equiv> haversineDistance rt (coord (ev_location_lat a)) (coord (ev_location_lng a))
               (coord (ev_location_lat b)) (coord (ev_location_lng b))"
  assumes "i < j" and "j < length claims"
    and "a = claimToEvent rt cptDb (claims ! i)"
    and "b = claimToEvent rt cptDb (claims ! j)"
    and "jgt (intervalsOverlap (start_time a) (end_time a) (start_time b) (end_time b)) (Fin 0)"
    and "hasCoord (ev_location_lat a)" and "hasCoord (ev_location_lng a)"
    and "hasCoord (ev_location_lat b)" and "hasCoord (ev_location_lng b)"
  shows "(ev_department a \<noteq> ev_department b \<and> jgt d (Fin 5) \<longrightarrow>
            \<lparr>event_a = a, event_b = b,
             overlap_minutes =
               intervalsOverlap (start_time a) (end_time a) (start_time b) (end_time b),
             ov_explanation = ImpossibleTravel, ov_type = TELEPORTATION,
             required_speed_kmh =
               Some (if start_time a = start_time b then PInf
                     else jdiv d (timeDiffHours a b))\<rparr>
            \<in> set (overlaps (runTimelineDetective rt claims cptDb)))
       \<and> (jle d (Fin 5) \<longrightarrow>
            (\<exists>ov \<in> set (overlaps (runTimelineDetective rt claims cptDb)).
               event_a ov = a \<and> event_b ov = b)
            \<and> (\<forall>ov \<in> set (overlaps (runTimelineDetective rt claims cptDb)).
                 event_a ov = a \<and> event_b ov = b \<longrightarrow> ov_type ov = OVERLAP))
       \<and> (\<forall>ov \<in> set (overlaps (runTimelineDetective rt claims cptDb)).
            ov_type ov = TELEPORTATION \<longrightarrow>
            ev_department (event_a ov) \<noteq> ev_department (event_b ov)
            \<and> hasCoord (ev_location_lat (event_a ov)) \<and> hasCoord (ev_location_lng (event_a ov))
            \<and> hasCoord (ev_location_lat (event_b ov)) \<and> hasCoord (ev_location_lng (event_b ov)))"
proof -
  have ev: "a = claimsToEvents rt claims cptDb ! i" "b = claimsToEvents rt claims cptDb ! j"
    using assms(2-5) by (simp_all add: claimsToEvents_def)
  have tele: "ev_department (event_a ov) \<noteq> ev_department (event_b ov)
      \<and> hasCoord (ev_location_lat (event_a ov)) \<and> hasCoord (ev_location_lng (event_a ov))
      \<and> hasCoord (ev_location_lat (event_b ov)) \<and> hasCoord (ev_location_lng (event_b ov))"
    if "ov \<in> set (overlaps (runTimelineDetective rt claims cptDb))"
       "ov_type ov = TELEPORTATION" for ov
    using scanPairs_member [of ov rt "claimsToEvents rt claims cptDb"] that
    by (simp add: overlaps_run) (rule teleportation_only_located)
  have sub: "set (checkPair rt a b) \<subseteq> set (overlaps (runTimelineDetective rt claims cptDb))"
    unfolding overlaps_run ev using assms(2,3)
    by (intro scanPairs_contains) (simp_all add: claimsToEvents_def)
  have speed: "(if jgt (timeDiffHours a b) (Fin 0) then jdiv d (timeDiffHours a b) else PInf)
      = (if start_time a = start_time b then PInf else jdiv d (timeDiffHours a b))"
    using timeDiffHours_positive [of a b] timeDiffHours_zero [of a b]
    by (auto simp: jgt_def)
  have far: "\<lparr>event_a = a, event_b = b,
             overlap_minutes =
               intervalsOverlap (start_time a) (end_time a) (start_time b) (end_time b),
             ov_explanation = ImpossibleTravel, ov_type = TELEPORTATION,
             required_speed_kmh =
               Some (if start_time a = start_time b then PInf
                     else jdiv d (timeDiffHours a b))\<rparr>
            \<in> set (checkPair rt a b)"
    if "ev_department a \<noteq> ev_department b" "jgt d (Fin 5)"
    unfolding checkPair_def Let_def d_def [symmetric] speed
    using that assms(6-10) by simp
  have not_gt: "\<not> jgt d (Fin 5)" if "jle d (Fin 5)"
    using that by (cases d) (auto simp: jgt_def)
  have near_ne: "checkPair rt a b \<noteq> []"
    using assms(6) by (auto simp: checkPair_def Let_def)
  have near_type: "ov_type ov = OVERLAP" if "jle d (Fin 5)" "ov \<in> set (checkPair rt a b)" for ov
    using that(2) not_gt [OF that(1)]
    unfolding checkPair_def Let_def d_def [symmetric]
    by (auto split: if_splits)
  have near_all: "ov_type ov = OVERLAP"
    if "jle d (Fin 5)" "ov \<in> set (overlaps (runTimelineDetective rt claims cptDb))"
       "event_a ov = a" "event_b ov = b" for ov
  proof -
    from that(2) have "ov \<in> set (checkPair rt (event_a ov) (event_b ov))"
      unfolding overlaps_run by (rule scanPairs_member)
    with that show ?thesis using near_type by simp
  qed
  from near_ne obtain ov0 where ov0: "ov0 \<in> set (checkPair rt a b)"
    by (cases "checkPair rt a b") auto
  with sub checkPair_events [OF ov0]
  have ex: "\<exists>ov \<in> set (overlaps (runTimelineDetective rt claims cptDb)).
              event_a ov = a \<and> event_b ov = b"
    by blast
  from far sub ex near_all tele show ?thesis by blast
qed

theorem teleportation_classification_witness:
  "(0::nat) < 1 \<and> 1 < length farBatch
   \<and> geoEvent ''CLM-1'' 1767261600000 ''PrimeCare Clinic'' 12
       = claimToEvent testRuntime testDb (farBatch ! 0)
   \<and> geoEvent ''CLM-2'' 1767263400000 ''Elite Rehab'' 13
       = claimToEvent testRuntime testDb (farBatch ! 1)
   \<and> haversineDistance testRuntime (Fin 12) (Fin 77) (Fin 13) (Fin 77) = farDistance
   \<and> jgt farDistance (Fin 5)
   \<and> \<lparr>event_a = geoEvent ''CLM-1'' 1767261600000 ''PrimeCare Clinic'' 12,
       event_b = geoEvent ''CLM-2'' 1767263400000 ''Elite Rehab'' 13,
       overlap_minutes = Fin 90, ov_explanation = ImpossibleTravel, ov_type = TELEPORTATION,
       required_speed_kmh = Some farSpeed\<rparr>
      \<in> set (overlaps (runTimelineDetective testRuntime farBatch testDb))
   \<and> jle (haversineDistance testRuntime (Fin 12) (Fin 77) (Fin 12) (Fin 77)) (Fin 5)
   \<and> (\<exists>ov \<in> set (overlaps (runTimelineDetective testRuntime nearBatch testDb)).
         event_a ov = geoEvent ''CLM-1'' 1767261600000 ''PrimeCare Clinic'' 12
         \<and> event_b ov = geoEvent ''CLM-2'' 1767263400000 ''Elite Rehab'' 12
         \<and> ov_type ov = OVERLAP)"
proof -
  let ?a = "geoEvent ''CLM-1'' 1767261600000 ''PrimeCare Clinic'' 12"
  let ?b = "geoEvent ''CLM-2'' 1767263400000 ''Elite Rehab'' 13"
  let ?c = "geoEvent ''CLM-2'' 1767263400000 ''Elite Rehab'' 12"
  have a: "?a = claimToEvent testRuntime testDb (farBatch ! 0)"
    and b: "?b = claimToEvent testRuntime testDb (farBatch ! 1)"
    and a': "?a = claimToEvent testRuntime testDb (nearBatch ! 0)"
    and c: "?c = claimToEvent testRuntime testDb (nearBatch ! 1)"
    by (simp_all add: farBatch_def nearBatch_def geo_event)
  have len: "(0::nat) < 1" "1 < length farBatch" "1 < length nearBatch"
    by (simp_all add: farBatch_def nearBatch_def)
  have ov: "jgt (intervalsOverlap (start_time ?a) (end_time ?a) (start_time ?b) (end_time ?b)) (Fin 0)"
    "jgt (intervalsOverlap (start_time ?a) (end_time ?a) (start_time ?c) (end_time ?c)) (Fin 0)"
    by (simp_all add: geoEvent_def geo_overlap jgt_def)
  have co: "hasCoord (ev_location_lat ?a)" "hasCoord (ev_location_lng ?a)"
    "hasCoord (ev_location_lat ?b)" "hasCoord (ev_location_lng ?b)"
    "hasCoord (ev_location_lat ?c)" "hasCoord (ev_location_lng ?c)"
    by (simp_all add: geoEvent_def hasCoord_def truthy_def)
  have near: "jle (haversineDistance testRuntime (Fin 12) (Fin 77) (Fin 12) (Fin 77)) (Fin 5)"
    by (simp add: same_point)
  have starts: "start_time ?a \<noteq> start_time ?b"
    by (simp add: geoEvent_def)
  have fields: "coord (ev_location_lat ?a) = Fin 12" "coord (ev_location_lng ?a) = Fin 77"
    "coord (ev_location_lat ?b) = Fin 13" "coord (ev_location_lng ?b) = Fin 77"
    "coord (ev_location_lat ?c) = Fin 12" "coord (ev_location_lng ?c) = Fin 77"
    "ev_department ?a \<noteq> ev_department ?b"
    "intervalsOverlap (start_time ?a) (end_time ?a) (start_time ?b) (end_time ?b) = Fin 90"
    by (simp_all add: geoEvent_def coord_def geo_overlap)
  have far_fact: "\<lparr>event_a = ?a, event_b = ?b, overlap_minutes = Fin 90,
       ov_explanation = ImpossibleTravel, ov_type = TELEPORTATION,
       required_speed_kmh = Some farSpeed\<rparr>
      \<in> set (overlaps (runTimelineDetective testRuntime farBatch testDb))"
    using far_is_far starts teleportation_classification [OF len(1,2) a b ov(1) co(1-4)]
    by (simp only: fields far_distance half_hour far_speed if_False simp_thms)
  have "\<forall>ov \<in> set (overlaps (runTimelineDetective testRuntime nearBatch testDb)).
          event_a ov = ?a \<and> event_b ov = ?c \<longrightarrow> ov_type ov = OVERLAP"
    and "\<exists>ov \<in> set (overlaps (runTimelineDetective testRuntime nearBatch testDb)).
          event_a ov = ?a \<and> event_b ov = ?c"
    using near teleportation_classification [OF len(1,3) a' c ov(2) co(1,2,5,6)]
    by (simp_all only: fields(1-6)) blast+
  then have near_fact: "\<exists>ov \<in> set (overlaps (runTimelineDetective testRuntime nearBatch testDb)).
      event_a ov = ?a \<and> event_b ov = ?c \<and> ov_type ov = OVERLAP"
    by blast
  from len a b far_distance far_is_far far_fact near near_fact show ?thesis by simp
qed

theorem same_department_not_teleportation:
  "jgt (haversineDistance testRuntime (Fin 12) (Fin 77) (Fin 13) (Fin 77)) (Fin 5)
   \<and> overlaps (runTimelineDetective testRuntime sameDepartmentBatch testDb)
     = [\<lparr>event_a = geoEvent ''CLM-1'' 1767261600000 ''Ortho'' 12,
         event_b = geoEvent ''CLM-2'' 1767263400000 ''Ortho'' 13,
         overlap_minutes = Fin 90, ov_explanation = SameLocationOverlap, ov_type = OVERLAP,
         required_speed_kmh = None\<rparr>]"
proof -
  have "checkPair testRuntime (geoEvent ''CLM-1'' 1767261600000 ''Ortho'' 12)
          (geoEvent ''CLM-2'' 1767263400000 ''Ortho'' 13)
     = [\<lparr>event_a = geoEvent ''CLM-1'' 1767261600000 ''Ortho'' 12,
         event_b = geoEvent ''CLM-2'' 1767263400000 ''Ortho'' 13,
         overlap_minutes = Fin 90, ov_explanation = SameLocationOverlap, ov_type = OVERLAP,
         required_speed_kmh = None\<rparr>]"
    by (simp add: checkPair_def geoEvent_def geo_overlap jgt_def)
  then show ?thesis
    using far_is_far by (simp add: overlaps_run same_department_events far_distance)
qed

text \<open>
  C10. Take two claims of a batch, the first before the second, whose intervals overlap
  and whose departments differ. If one of the four coordinates is undefined or 0, the run
  reports the pair as an OVERLAP at different locations without required speed, and no
  overlap of the run between these two events is a TELEPORTATION or has a required speed.
\<close>

theorem zero_coordinate_is_no_coordinate:
  assumes "i < j" and "j < length claims"
    and "a = claimToEvent rt cptDb (claims ! i)"
    and "b = claimToEvent rt cptDb (claims ! j)"
    and "jgt (intervalsOverlap (start_time a) (end_time a) (start_time b) (end_time b)) (Fin 0)"
    and "ev_department a \<noteq> ev_department b"
    and "v \<in> {ev_location_lat a, ev_location_lng a, ev_location_lat b, ev_location_lng b}"
    and "v = None \<or> v = Some (Fin 0)"
  shows "\<lparr>event_a = a, event_b = b,
          overlap_minutes =
            intervalsOverlap (start_time a) (end_time a) (start_time b) (end_time b),
          ov_explanation = DifferentLocationOverlap, ov_type = OVERLAP,
          required_speed_kmh = None\<rparr>
         \<in> set (overlaps (runTimelineDetective rt claims cptDb))
       \<and> (\<forall>ov \<in> set (overlaps (runTimelineDetective rt claims cptDb)).
            event_a ov = a \<and> event_b ov = b \<longrightarrow>
            ov_type ov = OVERLAP \<and> required_speed_kmh ov = None)"
proof -
  have ev: "a = claimsToEvents rt claims cptDb ! i" "b = claimsToEvents rt claims cptDb ! j"
    using assms(1-4) by (simp_all add: claimsToEvents_def)
  have sub: "set (checkPair rt a b) \<subseteq> set (overlaps (runTimelineDetective rt claims cptDb))"
    unfolding overlaps_run ev using assms(1,2)
    by (intro scanPairs_contains) (simp_all add: claimsToEvents_def)
  have "\<not> hasCoord v" using assms(8) by (auto simp: hasCoord_def truthy_def)
  with assms(7) have no: "\<not> (hasCoord (ev_location_lat a) \<and> hasCoord (ev_location_lng a)
      \<and> hasCoord (ev_location_lat b) \<and> hasCoord (ev_location_lng b))"
    by auto
  have pair: "checkPair rt a b
     = [\<lparr>event_a = a, event_b = b,
         overlap_minutes =
           intervalsOverlap (start_time a) (end_time a) (start_time b) (end_time b),
         ov_explanation = DifferentLocationOverlap, ov_type = OVERLAP,
         required_speed_kmh = None\<rparr>]"
    using assms(5,6) no by (auto simp: checkPair_def Let_def)
  have all: "ov_type ov = OVERLAP \<and> required_speed_kmh ov = None"
    if "ov \<in> set (overlaps (runTimelineDetective rt claims cptDb))"
       "event_a ov = a" "event_b ov = b" for ov
  proof -
    from that(1) have "ov \<in> set (checkPair rt (event_a ov) (event_b ov))"
      unfolding overlaps_run by (rule scanPairs_member)
    with that pair show ?thesis by simp
  qed
  from sub pair all show ?thesis by auto
qed

theorem zero_coordinate_is_no_coordinate_witness:
  "(0::nat) < 1 \<and> 1 < length equatorBatch
   \<and> geoEvent ''CLM-1'' 1767261600000 ''PrimeCare Clinic'' 0
       = claimToEvent testRuntime testDb (equatorBatch ! 0)
   \<and> geoEvent ''CLM-2'' 1767263400000 ''Elite Rehab'' 13
       = claimToEvent testRuntime testDb (equatorBatch ! 1)
   \<and> ev_location_lat (geoEvent ''CLM-1'' 1767261600000 ''PrimeCare Clinic'' 0) = Some (Fin 0)
   \<and> \<lparr>event_a = geoEvent ''CLM-1'' 1767261600000 ''PrimeCare Clinic'' 0,
       event_b = geoEvent ''CLM-2'' 1767263400000 ''Elite Rehab'' 13,
       overlap_minutes = Fin 90, ov_explanation = DifferentLocationOverlap, ov_type = OVERLAP,
       required_speed_kmh = None\<rparr>
      \<in> set (overlaps (runTimelineDetective testRuntime equatorBatch testDb))"
proof -
  let ?a = "geoEvent ''CLM-1'' 1767261600000 ''PrimeCare Clinic'' 0"
  let ?b = "geoEvent ''CLM-2'' 1767263400000 ''Elite Rehab'' 13"
  have a: "?a = claimToEvent testRuntime testDb (equatorBatch ! 0)"
    and b: "?b = claimToEvent testRuntime testDb (equatorBatch ! 1)"
    by (simp_all add: equatorBatch_def geo_event)
  have len: "(0::nat) < 1" "1 < length equatorBatch"
    by (simp_all add: equatorBatch_def)
  have ov: "jgt (intervalsOverlap (start_time ?a) (end_time ?a) (start_time ?b) (end_time ?b)) (Fin 0)"
    by (simp add: geoEvent_def geo_overlap jgt_def)
  have dep: "ev_department ?a \<noteq> ev_department ?b"
    by (simp add: geoEvent_def)
  have z: "ev_location_lat ?a = Some (Fin 0)"
    by (simp add: geoEvent_def)
  have v: "Some (Fin 0)
      \<in> {ev_location_lat ?a, ev_location_lng ?a, ev_location_lat ?b, ev_location_lng ?b}"
    by (simp add: geoEvent_def)
  have m: "intervalsOverlap (start_time ?a) (end_time ?a) (start_time ?b) (end_time ?b) = Fin 90"
    by (simp add: geoEvent_def geo_overlap)
  have "\<lparr>event_a = ?a, event_b = ?b, overlap_minutes = Fin 90,
       ov_explanation = DifferentLocationOverlap, ov_type = OVERLAP,
       required_speed_kmh = None\<rparr>
      \<in> set (overlaps (runTimelineDetective testRuntime equatorBatch testDb))"
    using zero_coordinate_is_no_coordinate [OF len a b ov dep v]
    by (simp only: m simp_thms)
  with len a b z show ?thesis by simp
qed

subsection \<open>Dates and times\<close>

text \<open>
  C9. A date that is empty or blank is replaced by the date of the clock, a time that is
  empty or blank by \<open>12:00\<close>, and a date and time that do not parse by the current
  instant; the detector builds one event per claim, in order, which starts at that time,
  for every batch.
\<close>

theorem missing_date_time_defaults:
  "(\<not> nonblank d \<longrightarrow> parseDateTime rt d t = parseDateTime rt (today rt) t)
   \<and> (\<not> nonblank t \<longrightarrow> parseDateTime rt d t = parseDateTime rt d ''12:00'')
   \<and> (\<not> nonblank d \<and> \<not> nonblank t \<longrightarrow>
        parseDateTime rt d t
          = (case parse rt (today rt @ ''T12:00:00'') of None \<Rightarrow> now rt | Some v \<Rightarrow> v))
   \<and> (parse rt ((if nonblank d then d else today rt) @ ''T''
                   @ (if nonblank t then t else ''12:00'') @ '':00'') = None \<longrightarrow>
        parseDateTime rt d t = now rt)
   \<and> map ev_claim_id (events (runTimelineDetective rt claims cptDb)) = map claim_id claims
   \<and> map start_time (events (runTimelineDetective rt claims cptDb))
       = map (\<lambda>c. parseDateTime rt (date c) (time c)) claims"
proof -
  have "nonblank ''12:00''" by (simp add: nonblank_def is_space_def)
  then show ?thesis
    by (simp add: parseDateTime_def runTimelineDetective_def claimsToEvents_def
        claimToEvent_def Let_def comp_def)
qed

theorem missing_date_time_defaults_witness:
  "\<not> nonblank (date undatedClaim) \<and> \<not> nonblank (time undatedClaim)
   \<and> parseDateTime testRuntime (date undatedClaim) (time undatedClaim) = 1767268800000
   \<and> map start_time (events (runTimelineDetective testRuntime [undatedClaim] testDb))
       = [1767268800000]"
proof -
  have b: "\<not> nonblank (date undatedClaim)" "\<not> nonblank (time undatedClaim)"
    by (simp_all add: undatedClaim_def nonblank_def is_space_def)
  have p: "parse testRuntime (today testRuntime @ ''T12:00:00'') = Some 1767268800000"
    by (simp add: testRuntime_def)
  from missing_date_time_defaults [of "date undatedClaim" testRuntime "time undatedClaim"
      "[undatedClaim]" testDb] b p
  show ?thesis by simp
qed

subsection \<open>Unbundling alerts\<close>

lemma detectUnbundling_concat_aux:
  "foldl (\<lambda>alerts bundle. alerts @ alertsOfBundle claims cptDb bundle) acc bs
     = acc @ concat (map (alertsOfBundle claims cptDb) bs)"
  by (induction bs arbitrary: acc) simp_all

lemma detectUnbundling_concat:
  "detectUnbundling claims cptDb = concat (map (alertsOfBundle claims cptDb) (ncci_bundles cptDb))"
  by (simp add: detectUnbundling_def detectUnbundling_concat_aux)

lemma triggered_iff:
  "spec_triggered claims bundle
     \<longleftrightarrow> primary_code bundle \<in> billedCodes claims \<and> length (presentBundled claims bundle) > 0"
  by (auto simp: spec_triggered_def billedCodes_def presentBundled_def filter_empty_conv)

lemma involved_matching:
  "primary_code bundle \<in> billedCodes claims \<Longrightarrow>
   involvedClaimsOf claims bundle = spec_matching claims bundle"
  unfolding involvedClaimsOf_def spec_matching_def involvedCodesOf_def presentBundled_def
    billedCodes_def
  by (rule filter_cong) auto

lemma alertsOfBundle_spec:
  "alertsOfBundle claims cptDb bundle
     = (if spec_triggered claims bundle then [spec_alert claims cptDb bundle] else [])"
proof (cases "spec_triggered claims bundle")
  case True
  then have p: "primary_code bundle \<in> billedCodes claims"
    and n: "length (presentBundled claims bundle) > 0"
    by (simp_all add: triggered_iff)
  show ?thesis
    using True p n
    by (simp add: alertsOfBundle_def spec_alert_def involved_matching Let_def correctCostOf_def
        involvedCodesOf_def presentBundled_def billedCodes_def truthy_def
        split: option.split)
next
  case False
  then show ?thesis
    using triggered_iff [of claims "bundle"] by (auto simp: alertsOfBundle_def Let_def)
qed

text \<open>
  C5, as amended. The alerts are, in the order of the rules, one alert for each rule whose
  primary code and at least one listed bundled code are billed in the batch. The alert
  covers the primary code and every billed bundled code, and the claims that bill them;
  its total is the sum of their billed amounts; its correct cost is the average cost of
  the replacement code in the reference database, and 60% of the total when the database
  has no such code or gives it the average cost 0 (or NaN); its savings are the total
  minus the correct cost.
\<close>

theorem unbundling_alerts:
  "detectUnbundling claims cptDb
     = map (spec_alert claims cptDb) (filter (spec_triggered claims) (ncci_bundles cptDb))"
proof -
  have "concat (map (alertsOfBundle claims cptDb) bs)
      = map (spec_alert claims cptDb) (filter (spec_triggered claims) bs)" for bs
    by (induction bs) (simp_all add: alertsOfBundle_spec)
  then show ?thesis by (simp add: detectUnbundling_concat)
qed

theorem unbundling_alerts_witness:
  "detectUnbundling unbundledBatch testDb = [unbundledAlert]
   \<and> total_billed unbundledAlert = Fin 200
   \<and> potential_savings unbundledAlert
       = jsub (total_billed unbundledAlert) (correct_cost unbundledAlert)"
proof -
  have "filter (spec_triggered unbundledBatch) (ncci_bundles testDb) = ncci_bundles testDb"
    by code_simp
  moreover have "map (spec_alert unbundledBatch testDb) (ncci_bundles testDb) = [unbundledAlert]"
    by (simp add: spec_alert_def spec_matching_def unbundledBatch_def testDb_def jsum_def
        jsub_def unbundledAlert_def fl64_eval)
  moreover have "potential_savings unbundledAlert
       = jsub (total_billed unbundledAlert) (correct_cost unbundledAlert)"
    by (simp add: unbundledAlert_def jsub_def fl64_eval)
  moreover have "total_billed unbundledAlert = Fin 200"
    by (simp add: unbundledAlert_def)
  ultimately show ?thesis
    using unbundling_alerts [of unbundledBatch testDb] by simp
qed

theorem zero_cost_replacement_falls_back:
  "map_option avg_cost_inr (codes zeroCostDb ''23655'') = Some (Fin 0)
   \<and> map correct_code (detectUnbundling unbundledBatch zeroCostDb) = [''23655'']
   \<and> map total_billed (detectUnbundling unbundledBatch zeroCostDb) = [Fin 200]
   \<and> map correct_cost (detectUnbundling unbundledBatch zeroCostDb) = [Fin 120]"
proof -
  have "jsum (map billed_amount_inr unbundledBatch) = Fin 200"
    by (simp add: unbundledBatch_def jsum_def fl64_eval)
  then have "detectUnbundling unbundledBatch zeroCostDb
      = [\<lparr>involved_claims = map claim_id unbundledBatch, involved_codes = [''23650'', ''29240''],
          total_billed = Fin 200, correct_code = ''23655'', correct_cost = Fin 120,
          potential_savings = Fin 80\<rparr>]"
    by (simp add: detectUnbundling_def zeroCostDb_def alertsOfBundle_def unbundled_involved
        correctCostOf_def truthy_def jsub_def fl64_eval)
  then show ?thesis
    by (simp add: zeroCostDb_def)
qed

subsection \<open>Severity mismatches\<close>

lemma auditClaim_id: "m \<in> set (auditClaim pic cptDb c) \<Longrightarrow> sm_claim_id m = claim_id c"
  by (auto simp: auditClaim_def Let_def split: option.splits if_splits)

lemma mismatch_of_claim:
  assumes "distinct (map claim_id claims)" and "c \<in> set claims"
    and "m \<in> set (concat (map (auditClaim pic cptDb) claims))"
    and "sm_claim_id m = claim_id c"
  shows "m \<in> set (auditClaim pic cptDb c)"
proof -
  from assms(3) obtain c' where c': "c' \<in> set claims" "m \<in> set (auditClaim pic cptDb c')"
    by auto
  with assms(4) have "claim_id c' = claim_id c"
    using auditClaim_id [of m pic cptDb c'] by simp
  with assms(1,2) c'(1) have "c' = c"
    by (meson distinct_map inj_onD)
  with c'(2) show ?thesis by simp
qed

lemma auditClaim_notes:
  assumes "codes cptDb (cpt_code c) = Some info" and "nonblank (recorded_clinical_notes c)"
  shows "auditClaim pic cptDb c =
     (let noteLevel = level (extractNoteSeverity (recorded_clinical_notes c) (severity_keywords cptDb));
          hasEvidence = checkServiceEvidence (cpt_code c) (cpt_description c)
                          (recorded_clinical_notes c)
      in if shouldFlag hasEvidence (severity info) (severity info - noteLevel)
         then [\<lparr>sm_claim_id = claim_id c, sm_cpt_code = cpt_code c,
                billed_severity = severity info,
                note_severity = (if hasEvidence then noteLevel else min noteLevel 1),
                severity_gap = severity info - (if hasEvidence then noteLevel else min noteLevel 1),
                sm_billed_amount = billed_amount_inr c,
                sm_explanation = (if hasEvidence then generateExplanation (severity info) noteLevel
                                  else MissingDocumentation)\<rparr>]
         else [])"
  using assms by (simp add: auditClaim_def Let_def)

text \<open>
  C3. In a batch with distinct claim ids, a claim with notes that are not blank and a
  procedure code of the reference database has a mismatch in the result exactly when the
  service has no evidence in the notes and the billed severity is at least 2, or the billed
  severity exceeds the severity of the notes by at least 3, or by at least 2 without
  evidence. A mismatch of a claim without evidence records the note severity
  \<open>min(level, 1)\<close>; with evidence it records the level of the notes.
\<close>

theorem severity_mismatch_rule:
  fixes c :: ClaimItem and cptDb :: CPTDatabase and info :: CPTCode
    and hasEvidence :: bool and noteLevel gap :: int
  defines "hasEvidence \<equiv> checkServiceEvidence (cpt_code c) (cpt_description c)
                            (recorded_clinical_notes c)"
    and "noteLevel \<equiv> level (extractNoteSeverity (recorded_clinical_notes c)
                                (severity_keywords cptDb))"
    and "gap \<equiv> severity info - noteLevel"
  assumes "distinct (map claim_id claims)" and "c \<in> set claims"
    and "codes cptDb (cpt_code c) = Some info"
    and "nonblank (recorded_clinical_notes c)"
  shows "((\<exists>m \<in> set (mismatches (runCrossModalAudit claims cptDb)). sm_claim_id m = claim_id c)
          \<longleftrightarrow> (\<not> hasEvidence \<and> severity info \<ge> 2) \<or> gap \<ge> 3 \<or> (gap \<ge> 2 \<and> \<not> hasEvidence))
       \<and> (\<forall>m \<in> set (mismatches (runCrossModalAudit claims cptDb)).
            sm_claim_id m = claim_id c \<longrightarrow>
            billed_severity m = severity info
            \<and> note_severity m = (if hasEvidence then noteLevel else min noteLevel 1)
            \<and> severity_gap m = severity info - note_severity m)"
proof -
  let ?pic = "inferClinicalPicture claims cptDb"
  have run: "mismatches (runCrossModalAudit claims cptDb)
      = concat (map (auditClaim ?pic cptDb) claims)"
    by (simp add: runCrossModalAudit_def Let_def)
  have body: "auditClaim ?pic cptDb c =
      (if shouldFlag hasEvidence (severity info) gap
       then [\<lparr>sm_claim_id = claim_id c, sm_cpt_code = cpt_code c,
              billed_severity = severity info,
              note_severity = (if hasEvidence then noteLevel else min noteLevel 1),
              severity_gap = severity info - (if hasEvidence then noteLevel else min noteLevel 1),
              sm_billed_amount = billed_amount_inr c,
              sm_explanation = (if hasEvidence then generateExplanation (severity info) noteLevel
                                else MissingDocumentation)\<rparr>]
       else [])"
    unfolding hasEvidence_def noteLevel_def gap_def
    using auditClaim_notes [OF assms(6,7), of ?pic] by (simp add: Let_def)
  have only: "m \<in> set (auditClaim ?pic cptDb c)"
    if "m \<in> set (mismatches (runCrossModalAudit claims cptDb))" "sm_claim_id m = claim_id c" for m
    using that mismatch_of_claim [OF assms(4,5), of m ?pic cptDb] by (simp add: run)
  have sub: "set (auditClaim ?pic cptDb c) \<subseteq> set (mismatches (runCrossModalAudit claims cptDb))"
    using assms(5) by (auto simp: run)
  have flag: "(\<exists>m \<in> set (mismatches (runCrossModalAudit claims cptDb)). sm_claim_id m = claim_id c)
      \<longleftrightarrow> shouldFlag hasEvidence (severity info) gap"
  proof
    assume "\<exists>m \<in> set (mismatches (runCrossModalAudit claims cptDb)). sm_claim_id m = claim_id c"
    then obtain m where "m \<in> set (auditClaim ?pic cptDb c)" using only by blast
    then show "shouldFlag hasEvidence (severity info) gap"
      by (auto simp: body split: if_splits)
  next
    assume "shouldFlag hasEvidence (severity info) gap"
    then obtain m where "m \<in> set (auditClaim ?pic cptDb c)" "sm_claim_id m = claim_id c"
      by (simp add: body)
    with sub show "\<exists>m \<in> set (mismatches (runCrossModalAudit claims cptDb)).
        sm_claim_id m = claim_id c"
      by blast
  qed
  have rec: "billed_severity m = severity info
      \<and> note_severity m = (if hasEvidence then noteLevel else min noteLevel 1)
      \<and> severity_gap m = severity info - note_severity m"
    if "m \<in> set (mismatches (runCrossModalAudit claims cptDb))" "sm_claim_id m = claim_id c" for m
    using only [OF that] by (auto simp: body split: if_splits)
  from flag rec show ?thesis
    by (simp add: shouldFlag_def)
qed

lemma er_facts:
  "checkServiceEvidence (cpt_code erClaim) (cpt_description erClaim)
     (recorded_clinical_notes erClaim) = False"
  "level (extractNoteSeverity (recorded_clinical_notes erClaim) (severity_keywords testDb)) = 1"
  "codes testDb (cpt_code erClaim)
     = Some \<lparr>severity = 5, avg_cost_inr = Fin 9000, category = ''E&M''\<rparr>"
  "nonblank (recorded_clinical_notes erClaim)"
  by code_simp+

theorem severity_mismatch_rule_witness:
  "distinct (map claim_id [erClaim]) \<and> erClaim \<in> set [erClaim]
   \<and> codes testDb (cpt_code erClaim)
       = Some \<lparr>severity = 5, avg_cost_inr = Fin 9000, category = ''E&M''\<rparr>
   \<and> nonblank (recorded_clinical_notes erClaim)
   \<and> \<not> checkServiceEvidence (cpt_code erClaim) (cpt_description erClaim)
          (recorded_clinical_notes erClaim)
   \<and> (\<exists>m \<in> set (mismatches (runCrossModalAudit [erClaim] testDb)).
         sm_claim_id m = claim_id erClaim \<and> note_severity m = 1 \<and> severity_gap m = 4)"
proof -
  have d: "distinct (map claim_id [erClaim])" "erClaim \<in> set [erClaim]" by simp_all
  note rule = severity_mismatch_rule [OF d er_facts(3,4)]
  from rule have "\<exists>m \<in> set (mismatches (runCrossModalAudit [erClaim] testDb)).
      sm_claim_id m = claim_id erClaim"
    by (simp add: er_facts)
  then obtain m where m: "m \<in> set (mismatches (runCrossModalAudit [erClaim] testDb))"
    "sm_claim_id m = claim_id erClaim"
    by blast
  with rule have "note_severity m = 1 \<and> severity_gap m = 4"
    by (simp add: er_facts)
  with m d er_facts show ?thesis by blast
qed

subsection \<open>Ghost services and denial phrases\<close>

lemma ghost_member:
  "i < length claims \<Longrightarrow>
   set (ghostOfClaim cptDb (bodyAreasOf claims cptDb) (dominantAreaOf (bodyAreasOf claims cptDb))
          i (claims ! i))
     \<subseteq> set (detectGhostServices claims cptDb)"
  by (auto simp: detectGhostServices_def Let_def)

text \<open>
  C4, as amended. Take a claim of a batch whose notes are not blank and hold a denial
  phrase (\<open>no record found\<close>, \<open>no clinical notes available\<close>, or \<open>not required\<close> in
  notes of fewer than 100 characters), in any letter case. If the description of the
  procedure matches a semantic group, the similarity is 0 whatever keywords match, and the
  claim is in the result as a ghost service with the score 0 and the phantom-billing
  explanation. If the description matches no semantic group, the similarity is 0.5 and the
  claim is not flagged.
\<close>

theorem denial_forces_zero_similarity:
  assumes "i < length claims" and "c = claims ! i"
    and "nonblank (recorded_clinical_notes c)"
    and "hasDenial (toLowerCase (recorded_clinical_notes c))"
  shows "(getRelevantGroups (cpt_description c) \<noteq> [] \<longrightarrow>
            calculateSimilarity (cpt_description c) (recorded_clinical_notes c) = Fin 0
            \<and> \<lparr>gs_claim_id = claim_id c, gs_cpt_code = cpt_code c,
                gs_billed_amount = billed_amount_inr c, similarity_score = Fin 0,
                gs_explanation = PhantomBilling\<rparr>
               \<in> set (detectGhostServices claims cptDb))
       \<and> (getRelevantGroups (cpt_description c) = [] \<longrightarrow>
            calculateSimilarity (cpt_description c) (recorded_clinical_notes c) = Fin 0.5
            \<and> ghostOfClaim cptDb bodyAreas dominantArea k c = [])"
proof -
  have zero: "calculateSimilarity (cpt_description c) (recorded_clinical_notes c) = Fin 0"
    if "getRelevantGroups (cpt_description c) \<noteq> []"
    using that assms(4) by (simp add: calculateSimilarity_def Let_def)
  have half: "calculateSimilarity (cpt_description c) (recorded_clinical_notes c) = Fin 0.5"
    if "getRelevantGroups (cpt_description c) = []"
    using that by (simp add: calculateSimilarity_def Let_def)
  have threshold: "jlt (Fin 0) (num 0.15)" "\<not> jlt (Fin (1 / 2)) (num 0.15)"
    by (simp_all add: fl64_eval)
  have ghost: "ghostOfClaim cptDb bas da n c
      = [\<lparr>gs_claim_id = claim_id c, gs_cpt_code = cpt_code c,
          gs_billed_amount = billed_amount_inr c, similarity_score = Fin 0,
          gs_explanation = PhantomBilling\<rparr>]"
    if "getRelevantGroups (cpt_description c) \<noteq> []" for bas da n
    using assms(3) zero [OF that] threshold by (simp add: ghostOfClaim_def Let_def)
  have none: "ghostOfClaim cptDb bodyAreas dominantArea k c = []"
    if "getRelevantGroups (cpt_description c) = []"
    using assms(3) half [OF that] threshold by (simp add: ghostOfClaim_def Let_def)
  have "\<lparr>gs_claim_id = claim_id c, gs_cpt_code = cpt_code c,
         gs_billed_amount = billed_amount_inr c, similarity_score = Fin 0,
         gs_explanation = PhantomBilling\<rparr>
        \<in> set (detectGhostServices claims cptDb)"
    if "getRelevantGroups (cpt_description c) \<noteq> []"
    using ghost_member [OF assms(1), of cptDb] ghost [OF that] assms(2) by auto
  with zero half none show ?thesis by blast
qed

lemma zero_claim_facts:
  "nonblank (recorded_clinical_notes zeroBilledClaim)"
  "hasDenial (toLowerCase (recorded_clinical_notes zeroBilledClaim))"
  "getRelevantGroups (cpt_description zeroBilledClaim) = [''mri'', ''brain'']"
  by code_simp+

theorem denial_forces_zero_similarity_witness:
  "(0::nat) < length [zeroBilledClaim] \<and> zeroBilledClaim = [zeroBilledClaim] ! 0
   \<and> nonblank (recorded_clinical_notes zeroBilledClaim)
   \<and> hasDenial (toLowerCase (recorded_clinical_notes zeroBilledClaim))
   \<and> getRelevantGroups (cpt_description zeroBilledClaim) \<noteq> []
   \<and> calculateSimilarity (cpt_description zeroBilledClaim)
        (recorded_clinical_notes zeroBilledClaim) = Fin 0
   \<and> zeroGhost \<in> set (detectGhostServices [zeroBilledClaim] testDb)"
proof -
  have i: "(0::nat) < length [zeroBilledClaim]" "zeroBilledClaim = [zeroBilledClaim] ! 0"
    by simp_all
  have g: "getRelevantGroups (cpt_description zeroBilledClaim) \<noteq> []"
    by (simp add: zero_claim_facts)
  have z: "zeroGhost = \<lparr>gs_claim_id = claim_id zeroBilledClaim,
      gs_cpt_code = cpt_code zeroBilledClaim,
      gs_billed_amount = billed_amount_inr zeroBilledClaim, similarity_score = Fin 0,
      gs_explanation = PhantomBilling\<rparr>"
    by (simp add: zeroGhost_def zeroBilledClaim_def)
  from denial_forces_zero_similarity [OF i zero_claim_facts(1,2), of testDb] g z i
    zero_claim_facts(1,2)
  show ?thesis by simp
qed

theorem denial_without_group_not_flagged:
  "nonblank (recorded_clinical_notes consultationClaim)
   \<and> str_includes (toLowerCase (recorded_clinical_notes consultationClaim)) ''no record found''
   \<and> getRelevantGroups (cpt_description consultationClaim) = []
   \<and> calculateSimilarity (cpt_description consultationClaim)
        (recorded_clinical_notes consultationClaim) = Fin 0.5
   \<and> detectGhostServices [consultationClaim] testDb = []"
proof -
  have s: "nonblank (recorded_clinical_notes consultationClaim)"
    "str_includes (toLowerCase (recorded_clinical_notes consultationClaim)) ''no record found''"
    "getRelevantGroups (cpt_description consultationClaim) = []"
    by code_simp+
  have h: "calculateSimilarity (cpt_description consultationClaim)
        (recorded_clinical_notes consultationClaim) = Fin 0.5"
    by (simp add: calculateSimilarity_def s(3))
  have "\<not> jlt (Fin (1 / 2)) (num 0.15)"
    by (simp add: fl64_eval)
  with h have "ghostOfClaim testDb bas da 0 consultationClaim = []" for bas da
    by (simp add: ghostOfClaim_def s(1))
  then have "detectGhostServices [consultationClaim] testDb = []"
    by (simp add: detectGhostServices_def Let_def)
  with s h show ?thesis by simp
qed

end
